theory Spec2Isabelle
  imports Main "HOL-Library.Multiset"
begin

section \<open>The OTP service (mail-server.js)\<close>

text \<open>
  \<^verbatim>\<open>const otpStore = new Map();\<close> maps an email address to the object
  \<^verbatim>\<open>{ otp, expires }\<close>. The generated code is always a string
  (\<^verbatim>\<open>generateOtp\<close> ends in \<^verbatim>\<open>.toString()\<close>); \<^verbatim>\<open>expires\<close> is a
  number of milliseconds since the epoch.
\<close>

record otp_entry =
  otp :: string
  expires :: int

type_synonym otp_store = "string \<rightharpoonup> otp_entry"

text \<open>
  The \<^verbatim>\<open>otp\<close> field of the request body of \<^verbatim>\<open>/verify-otp\<close> is whatever JSON
  value the client sent (or nothing); the handler compares it to the stored string with
  \<^verbatim>\<open>===\<close>, which never converts.
\<close>

datatype jsval = JUndefined | JNull | JBool bool | JNum int | JStr string

definition strict_eq_str :: "string \<Rightarrow> jsval \<Rightarrow> bool" where
  "strict_eq_str s v = (case v of JStr t \<Rightarrow> s = t | _ \<Rightarrow> False)"

text \<open>
  The responses of the mail server: \<^verbatim>\<open>res.json({ success: true })\<close> (status 200), or
  \<^verbatim>\<open>res.status(n).json({ success: false, error: msg })\<close>.
\<close>

datatype otp_response = OtpSuccess | OtpFailure nat string

text \<open>
  \<^verbatim>\<open>POST /send-otp\<close>: the code comes from \<^verbatim>\<open>Math.random\<close> and the instant from
  \<^verbatim>\<open>Date.now()\<close>, both parameters here; \<^verbatim>\<open>mail_fails\<close> is the outcome of
  \<^verbatim>\<open>transporter.sendMail\<close>. The entry is stored before the mail is sent and is not
  taken back when sending fails.
\<close>

definition send_otp ::
    "otp_store \<Rightarrow> string \<Rightarrow> string \<Rightarrow> int \<Rightarrow> bool \<Rightarrow> otp_store \<times> otp_response" where
  "send_otp otpStore email_addr code now mail_fails =
     (let otpStore' = otpStore(email_addr \<mapsto> \<lparr>otp = code, expires = now + 5 * 60 * 1000\<rparr>)
      in if mail_fails then (otpStore', OtpFailure 500 ''Failed to send OTP'')
         else (otpStore', OtpSuccess))"

text \<open>\<^verbatim>\<open>POST /verify-otp\<close>, branch by branch.\<close>

definition verify_otp ::
    "otp_store \<Rightarrow> string \<Rightarrow> jsval \<Rightarrow> int \<Rightarrow> otp_store \<times> otp_response" where
  "verify_otp otpStore email_addr submitted now =
     (case otpStore email_addr of
        None \<Rightarrow> (otpStore, OtpFailure 400 ''No OTP found for this email'')
      | Some stored \<Rightarrow>
          if now > expires stored
          then (otpStore(email_addr := None), OtpFailure 400 ''OTP expired'')
          else if strict_eq_str (otp stored) submitted
          then (otpStore(email_addr := None), OtpSuccess)
          else (otpStore, OtpFailure 400 ''Invalid OTP''))"

section \<open>The story server: data model\<close>

text \<open>
  The Mongoose schemas of the server. An \<^verbatim>\<open>ObjectId\<close> is a natural number here; a
  \<^verbatim>\<open>String\<close> path that may be missing is a \<open>string option\<close>; a \<^verbatim>\<open>Date\<close> is a number of
  milliseconds. \<^verbatim>\<open>likes\<close> and \<^verbatim>\<open>bookmarks\<close> are arrays of Clerk user ids, in the order
  the server stored them. A collection is the list of its documents in stored order.

  What the model takes from outside the source text: requests run one after the other;
  a call to the database succeeds unless a unique index of the schema refuses the write
  or an id does not cast; one request reads one instant from the clock; \<^verbatim>\<open>find()\<close>
  without a sort answers in stored order, and a sort keeps the stored order among equal
  keys.
\<close>

type_synonym oid = nat

text \<open>
  The id of a route (\<^verbatim>\<open>req.params.id\<close>, \<^verbatim>\<open>storyId\<close>, \<^verbatim>\<open>commentId\<close>) is a string of
  the URL. Where Mongoose wants an \<^verbatim>\<open>ObjectId\<close> it casts the string: either the string
  is a well-formed \<^verbatim>\<open>ObjectId\<close>, or it does not cast (\<^verbatim>\<open>/api/stories/nope\<close>).
  \<^verbatim>\<open>Model.findById\<close> throws a \<^verbatim>\<open>CastError\<close> on an id that does not cast.
\<close>

datatype route_id = Oid oid | NotAnObjectId string

definition cast_error :: "string \<Rightarrow> string" where
  "cast_error x = ''Cast to ObjectId failed for value '' @ x"

record user =
  uid :: oid
  clerkId :: string
  username :: "string option"
  email :: "string option"
  u_imageUrl :: "string option"
  bio :: string
  u_createdAt :: int
  u_updatedAt :: int

record comment =
  cid :: oid
  userId :: oid
  c_username :: string
  c_content :: string
  c_createdAt :: int

record story =
  sid :: oid
  title :: string
  content :: string
  category :: string
  authorId :: oid
  author :: string
  authorImage :: "string option"
  imageUrl :: "string option"
  audioUrl :: "string option"
  videoUrl :: "string option"
  likes :: "string list"
  bookmarks :: "string list"
  comments :: "comment list"
  createdAt :: int
  updatedAt :: int

record db =
  users :: "user list"
  stories :: "story list"

subsection \<open>JavaScript values and operators the handlers use\<close>

text \<open>
  A value that is a string, or \<^verbatim>\<open>null\<close>/\<^verbatim>\<open>undefined\<close> (\<open>None\<close>). \<^verbatim>\<open>a || b\<close> is \<open>b\<close>
  when \<open>a\<close> is falsy: missing, or the empty string. String concatenation converts
  \<^verbatim>\<open>null\<close> to the text \<^verbatim>\<open>null\<close>.
\<close>

definition truthy :: "string option \<Rightarrow> bool" where
  "truthy v = (case v of None \<Rightarrow> False | Some s \<Rightarrow> s \<noteq> [])"

definition js_or :: "string option \<Rightarrow> string option \<Rightarrow> string option" where
  "js_or a b = (if truthy a then a else b)"

definition js_to_string :: "string option \<Rightarrow> string" where
  "js_to_string v = (case v of None \<Rightarrow> ''null'' | Some s \<Rightarrow> s)"

text \<open>\<^verbatim>\<open>Array.prototype.indexOf\<close>: the first index holding the value, or -1.\<close>

fun indexOf_from :: "'a list \<Rightarrow> 'a \<Rightarrow> int \<Rightarrow> int" where
  "indexOf_from [] x i = -1"
| "indexOf_from (y # ys) x i = (if y = x then i else indexOf_from ys x (i + 1))"

definition indexOf :: "'a list \<Rightarrow> 'a \<Rightarrow> int" where
  "indexOf xs x = indexOf_from xs x 0"

text \<open>\<^verbatim>\<open>xs.splice(i, 1)\<close> for an index \<open>i \<ge> 0\<close>, and \<^verbatim>\<open>xs.push(x)\<close>.\<close>

definition splice1 :: "'a list \<Rightarrow> int \<Rightarrow> 'a list" where
  "splice1 xs i = take (nat i) xs @ drop (nat i + 1) xs"

definition push :: "'a list \<Rightarrow> 'a \<Rightarrow> 'a list" where
  "push xs x = xs @ [x]"

subsection \<open>The outside world\<close>

text \<open>
  A call to an external service returns or throws. The Clerk user as the handlers read
  it: \<^verbatim>\<open>id\<close>, \<^verbatim>\<open>username\<close>, \<^verbatim>\<open>firstName\<close>, \<^verbatim>\<open>lastName\<close> (each a string or
  \<^verbatim>\<open>null\<close>), the addresses of \<^verbatim>\<open>emailAddresses\<close> and \<^verbatim>\<open>imageUrl\<close>.
\<close>

datatype 'a outcome = Threw string | Returned 'a

record clerk_user =
  cu_id :: string
  cu_username :: "string option"
  firstName :: "string option"
  lastName :: "string option"
  emailAddresses :: "string list"
  cu_imageUrl :: "string option"

type_synonym upload_file = string

text \<open>
  What a request finds outside the database: the clock (\<^verbatim>\<open>Date.now()\<close>), the
  \<^verbatim>\<open>ObjectId\<close>s Mongoose gives to a new user and to a new story or comment, Clerk's
  \<^verbatim>\<open>users.getUser\<close> and \<^verbatim>\<open>users.deleteUser\<close>, and ImageKit's upload, which
  \<^verbatim>\<open>uploadToImageKit\<close> wraps into a promise of the URL.
\<close>

record env =
  date_now :: int
  new_user_id :: oid
  new_doc_id :: oid
  getUser :: "string \<Rightarrow> clerk_user option outcome"
  deleteUser :: "string \<Rightarrow> unit outcome"
  uploadToImageKit :: "upload_file \<Rightarrow> string \<Rightarrow> string outcome"

text \<open>
  The answers of the server: \<^verbatim>\<open>res.status(n).json({ error: msg })\<close>,
  \<^verbatim>\<open>res.status(204).send()\<close>, one projected story with its status, a list of projected
  stories, or a user document; and the page of Express's default error handler, with its
  status, when a middleware passes an error to \<^verbatim>\<open>next\<close>.
\<close>

record formatted_story =
  doc :: story
  author_name :: "string option"
  author_image :: "string option"
  comment_names :: "string option list"

datatype response =
    Failure nat string
  | NoContent
  | StoryJson nat formatted_story
  | StoriesJson "formatted_story list"
  | UserJson user
  | ErrorPage nat string

fun status :: "response \<Rightarrow> nat" where
  "status (Failure n m) = n"
| "status NoContent = 204"
| "status (StoryJson n s) = n"
| "status (StoriesJson ss) = 200"
| "status (UserJson u) = 200"
| "status (ErrorPage n m) = n"

subsection \<open>Queries on the collections\<close>

definition findUser :: "user list \<Rightarrow> string \<Rightarrow> user option" where
  "findUser us c = find (\<lambda>u. clerkId u = c) us"

definition findUserById :: "user list \<Rightarrow> oid \<Rightarrow> user option" where
  "findUserById us i = find (\<lambda>u. uid u = i) us"

definition findById :: "story list \<Rightarrow> oid \<Rightarrow> story option" where
  "findById ss i = find (\<lambda>s. sid s = i) ss"

text \<open>
  \<^verbatim>\<open>doc.save()\<close> of a document that was read from the collection replaces the stored
  document of the same \<^verbatim>\<open>_id\<close>; \<^verbatim>\<open>findByIdAndDelete\<close> and \<^verbatim>\<open>findOneAndDelete\<close>
  remove the first document that matches.
\<close>

fun update_first :: "('a \<Rightarrow> bool) \<Rightarrow> ('a \<Rightarrow> 'a) \<Rightarrow> 'a list \<Rightarrow> 'a list" where
  "update_first P f [] = []"
| "update_first P f (x # xs) = (if P x then f x # xs else x # update_first P f xs)"

fun delete_first :: "('a \<Rightarrow> bool) \<Rightarrow> 'a list \<Rightarrow> 'a list" where
  "delete_first P [] = []"
| "delete_first P (x # xs) = (if P x then xs else x # delete_first P xs)"

definition save_story :: "story \<Rightarrow> story list \<Rightarrow> story list" where
  "save_story s' ss = update_first (\<lambda>s. sid s = sid s') (\<lambda>_. s') ss"

definition save_user :: "user \<Rightarrow> user list \<Rightarrow> user list" where
  "save_user u' us = update_first (\<lambda>u. uid u = uid u') (\<lambda>_. u') us"

text \<open>
  The schema declares \<^verbatim>\<open>clerkId\<close> unique, and \<^verbatim>\<open>username\<close> and \<^verbatim>\<open>email\<close> unique and
  sparse: writing a user whose key another stored user has already is refused by the
  database, and the handler's \<^verbatim>\<open>catch\<close> answers 500. \<open>unique_conflict us u\<close> says
  that \<open>u\<close> clashes with one of the other users \<open>us\<close>. The database refuses as well a
  new document whose \<^verbatim>\<open>_id\<close> is taken.
\<close>

definition unique_conflict :: "user list \<Rightarrow> user \<Rightarrow> bool" where
  "unique_conflict us u =
     list_ex (\<lambda>u'. clerkId u' = clerkId u
         \<or> (username u \<noteq> None \<and> username u' = username u)
         \<or> (email u \<noteq> None \<and> email u' = email u)) us"

definition insert_refused :: "user list \<Rightarrow> user \<Rightarrow> bool" where
  "insert_refused us u = (list_ex (\<lambda>u'. uid u' = uid u) us \<or> unique_conflict us u)"

definition update_refused :: "user list \<Rightarrow> user \<Rightarrow> bool" where
  "update_refused us u = unique_conflict (filter (\<lambda>u'. uid u' \<noteq> uid u) us) u"

text \<open>\<^verbatim>\<open>.sort({ createdAt: -1 })\<close>.\<close>

definition sort_createdAt_desc :: "story list \<Rightarrow> story list" where
  "sort_createdAt_desc ss = sort_key (\<lambda>s. - createdAt s) ss"

text \<open>
  The projection every story handler answers with: the document, its author's name and
  image read from the \<^verbatim>\<open>User\<close> collection (\<^verbatim>\<open>populate\<close>), \<^verbatim>\<open>'Unknown'\<close> and
  the empty string when that user is gone, and likewise the name of every comment's
  author.
\<close>

definition format_story :: "user list \<Rightarrow> story \<Rightarrow> formatted_story" where
  "format_story us s =
     \<lparr>doc = s,
      author_name = (case findUserById us (authorId s) of
                       Some u \<Rightarrow> username u | None \<Rightarrow> Some ''Unknown''),
      author_image = (case findUserById us (authorId s) of
                       Some u \<Rightarrow> u_imageUrl u | None \<Rightarrow> Some []),
      comment_names = map (\<lambda>c. case findUserById us (userId c) of
                                 Some u \<Rightarrow> username u | None \<Rightarrow> Some ''Unknown'')
                          (comments s)\<rparr>"

text \<open>
  The tail of every mutating story handler: read the story again by its id and answer
  with its projection. A story that is not there makes \<^verbatim>\<open>populatedStory\<close> null, the
  property access throws and the \<^verbatim>\<open>catch\<close> answers 500 with the handler's prefix.
\<close>

definition respond_story :: "db \<Rightarrow> oid \<Rightarrow> nat \<Rightarrow> string \<Rightarrow> response" where
  "respond_story d i code prefix =
     (case findById (stories d) i of
        None \<Rightarrow> Failure 500 (prefix @ ''Cannot read properties of null'')
      | Some p \<Rightarrow> StoryJson code (format_story (users d) p))"

section \<open>The story server: middleware and handlers\<close>

subsection \<open>\<^verbatim>\<open>syncUser\<close>\<close>

text \<open>
  \<open>auth\<close> is \<^verbatim>\<open>req.auth.userId\<close>, \<open>None\<close> when \<^verbatim>\<open>req.auth\<close> or the id is missing.
  The middleware answers itself (\<open>Inl\<close>) or attaches the local user to the request
  and calls \<^verbatim>\<open>next()\<close> (\<open>Inr\<close>). In
  \<^verbatim>\<open>clerkUser.username || clerkUser.firstName + ' ' + clerkUser.lastName || fallback\<close>
  the \<^verbatim>\<open>+\<close> binds tighter than \<^verbatim>\<open>||\<close>, and \<^verbatim>\<open>||\<close> associates to the left.
\<close>

definition full_name :: "clerk_user \<Rightarrow> string" where
  "full_name cu = js_to_string (firstName cu) @ '' '' @ js_to_string (lastName cu)"

definition synced_username :: "clerk_user \<Rightarrow> string option \<Rightarrow> string option" where
  "synced_username cu fallback = js_or (js_or (cu_username cu) (Some (full_name cu))) fallback"

definition first_email :: "clerk_user \<Rightarrow> string option" where
  "first_email cu = (case emailAddresses cu of [] \<Rightarrow> None | a # _ \<Rightarrow> Some a)"

definition new_user :: "env \<Rightarrow> clerk_user \<Rightarrow> user" where
  "new_user e cu =
     \<lparr>uid = new_user_id e,
      clerkId = cu_id cu,
      username = synced_username cu (Some (''user_'' @ cu_id cu)),
      email = first_email cu,
      u_imageUrl = cu_imageUrl cu,
      bio = [],
      u_createdAt = date_now e,
      u_updatedAt = date_now e\<rparr>"

definition refreshed_user :: "env \<Rightarrow> clerk_user \<Rightarrow> user \<Rightarrow> user" where
  "refreshed_user e cu u =
     u\<lparr>username := synced_username cu (username u),
       email := js_or (first_email cu) (email u),
       u_imageUrl := js_or (cu_imageUrl cu) (u_imageUrl u),
       u_updatedAt := date_now e\<rparr>"

definition sync_error :: "string \<Rightarrow> response" where
  "sync_error m = Failure 500 (''Internal server error during user sync: '' @ m)"

definition syncUser :: "env \<Rightarrow> db \<Rightarrow> string option \<Rightarrow> db \<times> (response + user)" where
  "syncUser e d auth =
     (if \<not> truthy auth
      then (d, Inl (Failure 401 ''Unauthorized: No user ID provided by Clerk.''))
      else
        (case getUser e (js_to_string auth) of
           Threw m \<Rightarrow> (d, Inl (sync_error m))
         | Returned None \<Rightarrow> (d, Inl (Failure 404 ''User not found in Clerk.''))
         | Returned (Some clerkUser) \<Rightarrow>
             (case findUser (users d) (cu_id clerkUser) of
                None \<Rightarrow>
                  (let u = new_user e clerkUser
                   in if insert_refused (users d) u
                      then (d, Inl (sync_error ''E11000 duplicate key error''))
                      else (d\<lparr>users := users d @ [u]\<rparr>, Inr u))
              | Some u0 \<Rightarrow>
                  (let u = refreshed_user e clerkUser u0
                   in if update_refused (users d) u
                      then (d, Inl (sync_error ''E11000 duplicate key error''))
                      else (d\<lparr>users := save_user u (users d)\<rparr>, Inr u)))))"

text \<open>
  \<^verbatim>\<open>ClerkExpressRequireAuth()\<close>: a request that carries no valid session is not let
  through; the middleware passes the error \<^verbatim>\<open>Unauthenticated\<close> to \<^verbatim>\<open>next\<close>, Express's
  default error handler answers with its page and status 500, and neither \<^verbatim>\<open>syncUser\<close>
  nor the handler runs. \<open>None\<close> stands for \<^verbatim>\<open>next()\<close>.
\<close>

definition ClerkExpressRequireAuth :: "string option \<Rightarrow> response option" where
  "ClerkExpressRequireAuth auth =
     (if truthy auth then None else Some (ErrorPage 500 ''Unauthenticated''))"

text \<open>
  A protected route: \<^verbatim>\<open>ClerkExpressRequireAuth(), syncUser, handler\<close>. The handler
  runs on the database \<^verbatim>\<open>syncUser\<close> left, with \<^verbatim>\<open>req.user\<close>.
\<close>

definition protected ::
    "env \<Rightarrow> db \<Rightarrow> string option \<Rightarrow> (db \<Rightarrow> user \<Rightarrow> db \<times> response) \<Rightarrow> db \<times> response" where
  "protected e d auth handler =
     (case ClerkExpressRequireAuth auth of
        Some r \<Rightarrow> (d, r)
      | None \<Rightarrow>
          (case syncUser e d auth of
             (d1, Inl r) \<Rightarrow> (d1, r)
           | (d1, Inr u) \<Rightarrow> handler d1 u))"

subsection \<open>Reading stories\<close>

text \<open>\<^verbatim>\<open>GET /api/stories\<close> (public).\<close>

definition get_stories :: "db \<Rightarrow> response" where
  "get_stories d =
     StoriesJson (map (format_story (users d)) (sort_createdAt_desc (stories d)))"

text \<open>\<^verbatim>\<open>GET /api/stories/user/:clerkId\<close>.\<close>

definition get_user_stories :: "db \<Rightarrow> string \<Rightarrow> db \<times> response" where
  "get_user_stories d c =
     (case findUser (users d) c of
        None \<Rightarrow> (d, Failure 404 ''User not found'')
      | Some u \<Rightarrow>
          (d, StoriesJson (map (format_story (users d))
                (sort_createdAt_desc (filter (\<lambda>s. authorId s = uid u) (stories d))))))"

text \<open>\<^verbatim>\<open>GET /api/stories/bookmarked\<close>; \<^verbatim>\<open>req.user\<close> is never null after \<^verbatim>\<open>syncUser\<close>.\<close>

definition get_bookmarked :: "db \<Rightarrow> user \<Rightarrow> db \<times> response" where
  "get_bookmarked d u =
     (d, StoriesJson (map (format_story (users d))
           (sort_createdAt_desc (filter (\<lambda>s. clerkId u \<in> set (bookmarks s)) (stories d)))))"

text \<open>\<^verbatim>\<open>GET /api/users/:clerkId\<close> (no middleware).\<close>

definition get_user :: "db \<Rightarrow> string \<Rightarrow> response" where
  "get_user d c =
     (case findUser (users d) c of
        None \<Rightarrow> Failure 404 ''User not found''
      | Some u \<Rightarrow> UserJson u)"

subsection \<open>Creating, updating and deleting a story\<close>

text \<open>
  One optional attachment: \<open>old\<close> when the request has no such file, the URL of the
  upload otherwise; a failed upload rejects, and the handler's \<^verbatim>\<open>catch\<close> answers 500.
\<close>

definition upload_opt ::
    "env \<Rightarrow> upload_file option \<Rightarrow> string \<Rightarrow> string option \<Rightarrow> string option outcome" where
  "upload_opt e f folder old =
     (case f of
        None \<Rightarrow> Returned old
      | Some x \<Rightarrow>
          (case uploadToImageKit e x folder of
             Threw m \<Rightarrow> Threw m
           | Returned url \<Rightarrow> Returned (Some url)))"

text \<open>
  \<^verbatim>\<open>POST /api/stories\<close>. \<^verbatim>\<open>author\<close> is a required path: a user without a name makes
  \<^verbatim>\<open>save()\<close> reject.
\<close>

definition create_story ::
    "env \<Rightarrow> string option \<Rightarrow> string option \<Rightarrow> string option \<Rightarrow>
     upload_file option \<Rightarrow> upload_file option \<Rightarrow> upload_file option \<Rightarrow>
     db \<Rightarrow> user \<Rightarrow> db \<times> response" where
  "create_story e t c cat imageF audioF videoF d u =
     (if \<not> truthy t \<or> \<not> truthy c \<or> \<not> truthy cat
      then (d, Failure 400 ''Title, content, and category are required.'')
      else
        (case upload_opt e imageF ''story-images'' None of
           Threw m \<Rightarrow> (d, Failure 500 (''Failed to create story: '' @ m))
         | Returned iu \<Rightarrow>
        (case upload_opt e audioF ''story-audio'' None of
           Threw m \<Rightarrow> (d, Failure 500 (''Failed to create story: '' @ m))
         | Returned au \<Rightarrow>
        (case upload_opt e videoF ''story-videos'' None of
           Threw m \<Rightarrow> (d, Failure 500 (''Failed to create story: '' @ m))
         | Returned vu \<Rightarrow>
             (if \<not> truthy (username u)
              then (d, Failure 500 ''Failed to create story: Story validation failed'')
              else if list_ex (\<lambda>s. sid s = new_doc_id e) (stories d)
              then (d, Failure 500 ''Failed to create story: E11000 duplicate key error'')
              else
                (let newStory =
                       \<lparr>sid = new_doc_id e,
                        title = js_to_string t,
                        content = js_to_string c,
                        category = js_to_string cat,
                        authorId = uid u,
                        author = js_to_string (username u),
                        authorImage = u_imageUrl u,
                        imageUrl = iu,
                        audioUrl = au,
                        videoUrl = vu,
                        likes = [],
                        bookmarks = [],
                        comments = [],
                        createdAt = date_now e,
                        updatedAt = date_now e\<rparr>;
                     d' = d\<lparr>stories := stories d @ [newStory]\<rparr>
                 in (d', respond_story d' (sid newStory) 201 ''Failed to create story: '')))))))"

text \<open>\<^verbatim>\<open>PUT /api/stories/:id\<close>.\<close>

definition update_story ::
    "env \<Rightarrow> route_id \<Rightarrow> string option \<Rightarrow> string option \<Rightarrow> string option \<Rightarrow>
     upload_file option \<Rightarrow> upload_file option \<Rightarrow> upload_file option \<Rightarrow>
     db \<Rightarrow> user \<Rightarrow> db \<times> response" where
  "update_story e rid t c cat imageF audioF videoF d u =
     (case rid of
        NotAnObjectId x \<Rightarrow> (d, Failure 500 (''Failed to update story: '' @ cast_error x))
      | Oid i \<Rightarrow>
     (case findById (stories d) i of
        None \<Rightarrow> (d, Failure 404 ''Story not found'')
      | Some s \<Rightarrow>
          if authorId s \<noteq> uid u
          then (d, Failure 403 ''Unauthorized: You can only edit your own stories.'')
          else
            (case upload_opt e imageF ''story-images'' (imageUrl s) of
               Threw m \<Rightarrow> (d, Failure 500 (''Failed to update story: '' @ m))
             | Returned iu \<Rightarrow>
            (case upload_opt e audioF ''story-audio'' (audioUrl s) of
               Threw m \<Rightarrow> (d, Failure 500 (''Failed to update story: '' @ m))
             | Returned au \<Rightarrow>
            (case upload_opt e videoF ''story-videos'' (videoUrl s) of
               Threw m \<Rightarrow> (d, Failure 500 (''Failed to update story: '' @ m))
             | Returned vu \<Rightarrow>
                 (let s' = s\<lparr>title := js_to_string (js_or t (Some (title s))),
                             content := js_to_string (js_or c (Some (content s))),
                             category := js_to_string (js_or cat (Some (category s))),
                             imageUrl := iu,
                             audioUrl := au,
                             videoUrl := vu,
                             updatedAt := date_now e\<rparr>;
                      d' = d\<lparr>stories := save_story s' (stories d)\<rparr>
                  in (d', respond_story d' (sid s') 200 ''Failed to update story: '')))))))"

text \<open>\<^verbatim>\<open>DELETE /api/stories/:id\<close>.\<close>

definition delete_story :: "route_id \<Rightarrow> db \<Rightarrow> user \<Rightarrow> db \<times> response" where
  "delete_story rid d u =
     (case rid of
        NotAnObjectId x \<Rightarrow> (d, Failure 500 (''Failed to delete story: '' @ cast_error x))
      | Oid i \<Rightarrow>
     (case findById (stories d) i of
        None \<Rightarrow> (d, Failure 404 ''Story not found'')
      | Some s \<Rightarrow>
          if authorId s \<noteq> uid u
          then (d, Failure 403 ''Unauthorized: You can only delete your own stories.'')
          else (d\<lparr>stories := delete_first (\<lambda>s. sid s = i) (stories d)\<rparr>, NoContent)))"

subsection \<open>Likes, bookmarks and comments\<close>

text \<open>
  The lines both toggles share (337 to 342 for likes, 376 to 381 for bookmarks):
  \<^verbatim>\<open>const idx = arr.indexOf(clerkUserId);
  if (idx > -1) { arr.splice(idx, 1); } else { arr.push(clerkUserId); }\<close>
\<close>

definition toggle_id :: "string list \<Rightarrow> string \<Rightarrow> string list" where
  "toggle_id arr clerkUserId =
     (let idx = indexOf arr clerkUserId
      in if idx > -1 then splice1 arr idx else push arr clerkUserId)"

text \<open>
  \<^verbatim>\<open>POST /api/stories/:id/like\<close>; \<open>clerkUserId\<close> is \<^verbatim>\<open>req.auth.userId\<close>. The handler
  does not read \<^verbatim>\<open>req.user\<close>.
\<close>

definition like_story :: "string \<Rightarrow> route_id \<Rightarrow> db \<Rightarrow> user \<Rightarrow> db \<times> response" where
  "like_story clerkUserId rid d u =
     (case rid of
        NotAnObjectId x \<Rightarrow> (d, Failure 500 (''Failed to update like status: '' @ cast_error x))
      | Oid i \<Rightarrow>
     (case findById (stories d) i of
        None \<Rightarrow> (d, Failure 404 ''Story not found'')
      | Some s \<Rightarrow>
          (let s' = s\<lparr>likes := toggle_id (likes s) clerkUserId\<rparr>;
               d' = d\<lparr>stories := save_story s' (stories d)\<rparr>
           in (d', respond_story d' (sid s') 200 ''Failed to update like status: ''))))"

text \<open>\<^verbatim>\<open>POST /api/stories/:id/bookmark\<close>.\<close>

definition bookmark_story :: "string \<Rightarrow> route_id \<Rightarrow> db \<Rightarrow> user \<Rightarrow> db \<times> response" where
  "bookmark_story clerkUserId rid d u =
     (case rid of
        NotAnObjectId x \<Rightarrow>
          (d, Failure 500 (''Failed to update bookmark status: '' @ cast_error x))
      | Oid i \<Rightarrow>
     (case findById (stories d) i of
        None \<Rightarrow> (d, Failure 404 ''Story not found'')
      | Some s \<Rightarrow>
          (let s' = s\<lparr>bookmarks := toggle_id (bookmarks s) clerkUserId\<rparr>;
               d' = d\<lparr>stories := save_story s' (stories d)\<rparr>
           in (d', respond_story d' (sid s') 200 ''Failed to update bookmark status: ''))))"

text \<open>
  \<^verbatim>\<open>POST /api/stories/:id/comment\<close>. The comment's \<^verbatim>\<open>username\<close> is a required path.
\<close>

definition add_comment ::
    "env \<Rightarrow> route_id \<Rightarrow> string option \<Rightarrow> db \<Rightarrow> user \<Rightarrow> db \<times> response" where
  "add_comment e rid c d u =
     (if \<not> truthy c
      then (d, Failure 400 ''Comment content cannot be empty.'')
      else
        (case rid of
           NotAnObjectId x \<Rightarrow> (d, Failure 500 (''Failed to add comment: '' @ cast_error x))
         | Oid i \<Rightarrow>
        (case findById (stories d) i of
           None \<Rightarrow> (d, Failure 404 ''Story not found'')
         | Some s \<Rightarrow>
             if \<not> truthy (username u)
             then (d, Failure 500 ''Failed to add comment: Story validation failed'')
             else
               (let s' = s\<lparr>comments := push (comments s)
                             \<lparr>cid = new_doc_id e,
                              userId = uid u,
                              c_username = js_to_string (username u),
                              c_content = js_to_string c,
                              c_createdAt = date_now e\<rparr>\<rparr>;
                    d' = d\<lparr>stories := save_story s' (stories d)\<rparr>
                in (d', respond_story d' (sid s') 201 ''Failed to add comment: '')))))"

text \<open>
  \<^verbatim>\<open>DELETE /api/stories/:storyId/comment/:commentId\<close>. \<^verbatim>\<open>comments.id(commentId)\<close> is
  the first embedded comment of that \<^verbatim>\<open>_id\<close> or null, and null as well for an id that
  does not cast (the array catches the cast's error); \<^verbatim>\<open>comments.pull(commentId)\<close>
  removes the embedded comments of that \<^verbatim>\<open>_id\<close>, and is reached only with an id that
  \<^verbatim>\<open>comments.id\<close> found.
\<close>

definition comments_id :: "comment list \<Rightarrow> route_id \<Rightarrow> comment option" where
  "comments_id cs commentId =
     (case commentId of
        NotAnObjectId x \<Rightarrow> None
      | Oid j \<Rightarrow> find (\<lambda>c. cid c = j) cs)"

definition comments_pull :: "comment list \<Rightarrow> route_id \<Rightarrow> comment list" where
  "comments_pull cs commentId =
     (case commentId of
        NotAnObjectId x \<Rightarrow> cs
      | Oid j \<Rightarrow> filter (\<lambda>c. cid c \<noteq> j) cs)"

definition delete_comment :: "route_id \<Rightarrow> route_id \<Rightarrow> db \<Rightarrow> user \<Rightarrow> db \<times> response" where
  "delete_comment storyId commentId d u =
     (case storyId of
        NotAnObjectId x \<Rightarrow> (d, Failure 500 (''Failed to delete comment: '' @ cast_error x))
      | Oid i \<Rightarrow>
     (case findById (stories d) i of
        None \<Rightarrow> (d, Failure 404 ''Story not found.'')
      | Some s \<Rightarrow>
          (case comments_id (comments s) commentId of
             None \<Rightarrow> (d, Failure 404 ''Comment not found.'')
           | Some c \<Rightarrow>
               if userId c \<noteq> uid u
               then (d, Failure 403 ''Unauthorized: You can only delete your own comments.'')
               else
                 (let s' = s\<lparr>comments := comments_pull (comments s) commentId\<rparr>;
                      d' = d\<lparr>stories := save_story s' (stories d)\<rparr>
                  in (d', respond_story d' (sid s') 200 ''Failed to delete comment: '')))))"

subsection \<open>Profiles\<close>

text \<open>\<^verbatim>\<open>PUT /api/users/:id\<close>.\<close>

definition update_profile ::
    "env \<Rightarrow> string \<Rightarrow> string option \<Rightarrow> string option \<Rightarrow> upload_file option \<Rightarrow>
     db \<Rightarrow> user \<Rightarrow> db \<times> response" where
  "update_profile e i uname b imageF d u =
     (if clerkId u \<noteq> i
      then (d, Failure 403 ''Unauthorized: You can only edit your own profile'')
      else
        (case upload_opt e imageF ''profile-images'' None of
           Threw m \<Rightarrow> (d, Failure 500 (''Failed to update profile: '' @ m))
         | Returned img \<Rightarrow>
             if \<not> truthy uname \<and> \<not> truthy b \<and> img = None
             then (d, Failure 400 ''No update data provided'')
             else
               (case findUser (users d) i of
                  None \<Rightarrow> (d, Failure 404 ''User not found'')
                | Some u0 \<Rightarrow>
                    (let u1 = u0\<lparr>username := (if truthy uname then uname else username u0),
                                 bio := (if truthy b then js_to_string b else bio u0),
                                 u_imageUrl := (case img of None \<Rightarrow> u_imageUrl u0
                                                | Some url \<Rightarrow> Some url),
                                 u_updatedAt := date_now e\<rparr>
                     in if update_refused (users d) u1
                        then (d, Failure 500 ''Failed to update profile: E11000 duplicate key error'')
                        else (d\<lparr>users := update_first (\<lambda>x. clerkId x = i) (\<lambda>_. u1) (users d)\<rparr>,
                              UserJson u1)))))"

text \<open>
  \<^verbatim>\<open>DELETE /api/users/:clerkId\<close>. \<^verbatim>\<open>deleteMany\<close> removes every story of the author;
  \<^verbatim>\<open>updateMany\<close> with \<^verbatim>\<open>$pull\<close> removes, in every story the filter selects, every
  occurrence of the Clerk id in \<^verbatim>\<open>likes\<close> and \<^verbatim>\<open>bookmarks\<close> and every comment of the
  user; then the user document goes, and last Clerk is asked to delete the identity. When
  that last call throws, the database has been changed already.
\<close>

definition pull_user :: "string \<Rightarrow> oid \<Rightarrow> story \<Rightarrow> story" where
  "pull_user c i s =
     (if c \<in> set (likes s) \<or> c \<in> set (bookmarks s) \<or> list_ex (\<lambda>cm. userId cm = i) (comments s)
      then s\<lparr>likes := removeAll c (likes s),
             bookmarks := removeAll c (bookmarks s),
             comments := filter (\<lambda>cm. userId cm \<noteq> i) (comments s)\<rparr>
      else s)"

definition delete_profile :: "env \<Rightarrow> string \<Rightarrow> db \<Rightarrow> user \<Rightarrow> db \<times> response" where
  "delete_profile e c d u =
     (if clerkId u \<noteq> c
      then (d, Failure 403 ''Unauthorized: You can only delete your own profile'')
      else
        (case findUser (users d) c of
           None \<Rightarrow> (d, Failure 404 ''User not found in database'')
         | Some usr \<Rightarrow>
             (let kept = filter (\<lambda>s. authorId s \<noteq> uid usr) (stories d);
                  pulled = map (pull_user c (uid usr)) kept;
                  d' = \<lparr>users = delete_first (\<lambda>x. clerkId x = c) (users d), stories = pulled\<rparr>
              in (case deleteUser e c of
                    Threw m \<Rightarrow> (d', Failure 500 (''Failed to delete profile: '' @ m))
                  | Returned _ \<Rightarrow> (d', NoContent)))))"

subsection \<open>The routes of the server\<close>

text \<open>
  Every route of the server, with what the handler reads from the request. \<open>auth\<close>
  is \<^verbatim>\<open>req.auth.userId\<close>, \<open>None\<close> for a request without a valid session.
\<close>

datatype request =
    GetStories
  | GetUserStories "string option" string
  | CreateStory "string option" "string option" "string option" "string option"
      "upload_file option" "upload_file option" "upload_file option"
  | UpdateStory "string option" route_id "string option" "string option" "string option"
      "upload_file option" "upload_file option" "upload_file option"
  | DeleteStory "string option" route_id
  | LikeStory "string option" route_id
  | BookmarkStory "string option" route_id
  | AddComment "string option" route_id "string option"
  | DeleteComment "string option" route_id route_id
  | GetUser string
  | GetBookmarked "string option"
  | UpdateProfile "string option" string "string option" "string option" "upload_file option"
  | DeleteProfile "string option" string

fun handle :: "env \<Rightarrow> db \<Rightarrow> request \<Rightarrow> db \<times> response" where
  "handle e d GetStories = (d, get_stories d)"
| "handle e d (GetUserStories auth c) = protected e d auth (\<lambda>d1 u. get_user_stories d1 c)"
| "handle e d (CreateStory auth t c cat imageF audioF videoF) =
     protected e d auth (create_story e t c cat imageF audioF videoF)"
| "handle e d (UpdateStory auth i t c cat imageF audioF videoF) =
     protected e d auth (update_story e i t c cat imageF audioF videoF)"
| "handle e d (DeleteStory auth i) = protected e d auth (delete_story i)"
| "handle e d (LikeStory auth i) = protected e d auth (like_story (js_to_string auth) i)"
| "handle e d (BookmarkStory auth i) = protected e d auth (bookmark_story (js_to_string auth) i)"
| "handle e d (AddComment auth i c) = protected e d auth (add_comment e i c)"
| "handle e d (DeleteComment auth i j) = protected e d auth (delete_comment i j)"
| "handle e d (GetUser c) = (d, get_user d c)"
| "handle e d (GetBookmarked auth) = protected e d auth get_bookmarked"
| "handle e d (UpdateProfile auth i uname b imageF) =
     protected e d auth (update_profile e i uname b imageF)"
| "handle e d (DeleteProfile auth c) = protected e d auth (delete_profile e c)"

section \<open>The router of routes/stories.js\<close>

text \<open>
  The router has its own model (models/Story.js) and one route, \<^verbatim>\<open>GET /\<close>, which
  answers with \<^verbatim>\<open>await Story.find()\<close>: the documents as the collection holds them,
  with no sort.
\<close>

record router_story =
  r_title :: string
  r_content :: string
  r_imageUrl :: string
  r_category :: string
  r_author :: string
  r_createdAt :: int

definition router_get_stories :: "router_story list \<Rightarrow> router_story list" where
  "router_get_stories collection = collection"

section \<open>Invariants of the collections\<close>

text \<open>
  The data model calls \<^verbatim>\<open>likes\<close> and \<^verbatim>\<open>bookmarks\<close> sets: no Clerk id occurs twice
  in either array of any stored story.
\<close>

definition no_duplicates :: "db \<Rightarrow> bool" where
  "no_duplicates d = list_all (\<lambda>s. distinct (likes s) \<and> distinct (bookmarks s)) (stories d)"

text \<open>
  The unique indexes of the \<^verbatim>\<open>User\<close> collection: \<^verbatim>\<open>_id\<close> and \<^verbatim>\<open>clerkId\<close>.
\<close>

definition users_ok :: "db \<Rightarrow> bool" where
  "users_ok d = (distinct (map uid (users d)) \<and> distinct (map clerkId (users d)))"

text \<open>Newest first: no timestamp is followed by a later one.\<close>

definition newest_first :: "int list \<Rightarrow> bool" where
  "newest_first ts = sorted_wrt (\<lambda>a b. b \<le> a) ts"

section \<open>Example data\<close>

text \<open>
  Two Clerk identities with their local users, two stories, and an outside world in which
  every external call succeeds. The closed theorems below evaluate the handlers on them.
\<close>

definition clerk_alice :: clerk_user where
  "clerk_alice = \<lparr>cu_id = ''u1'', cu_username = Some ''alice'', firstName = Some ''Alice'',
     lastName = None, emailAddresses = [''alice@example.org''], cu_imageUrl = None\<rparr>"

definition clerk_bob :: clerk_user where
  "clerk_bob = \<lparr>cu_id = ''u2'', cu_username = Some ''bob'', firstName = None,
     lastName = None, emailAddresses = [], cu_imageUrl = Some ''https://img.example/bob.png''\<rparr>"

definition ex_env :: env where
  "ex_env = \<lparr>date_now = 5000, new_user_id = 10, new_doc_id = 20,
     getUser = (\<lambda>i. if i = ''u1'' then Returned (Some clerk_alice)
                    else if i = ''u2'' then Returned (Some clerk_bob) else Returned None),
     deleteUser = (\<lambda>_. Returned ()),
     uploadToImageKit = (\<lambda>f folder. Returned (folder @ ''/'' @ f))\<rparr>"

definition ex_alice :: user where
  "ex_alice = \<lparr>uid = 1, clerkId = ''u1'', username = Some ''alice'',
     email = Some ''alice@example.org'', u_imageUrl = None, bio = [],
     u_createdAt = 100, u_updatedAt = 100\<rparr>"

definition ex_bob :: user where
  "ex_bob = \<lparr>uid = 2, clerkId = ''u2'', username = Some ''bob'',
     email = None, u_imageUrl = Some ''https://img.example/bob.png'', bio = ''hi'',
     u_createdAt = 200, u_updatedAt = 200\<rparr>"

definition ex_story :: story where
  "ex_story = \<lparr>sid = 7, title = ''T'', content = ''C'', category = ''Myth'', authorId = 1,
     author = ''alice'', authorImage = None, imageUrl = None, audioUrl = None, videoUrl = None,
     likes = [''u2''], bookmarks = [''u1''],
     comments = [\<lparr>cid = 30, userId = 2, c_username = ''bob'', c_content = ''nice'',
                   c_createdAt = 1500\<rparr>],
     createdAt = 1000, updatedAt = 1000\<rparr>"

definition ex_story2 :: story where
  "ex_story2 = \<lparr>sid = 8, title = ''T2'', content = ''C2'', category = ''Epic'', authorId = 2,
     author = ''bob'', authorImage = None, imageUrl = None, audioUrl = None, videoUrl = None,
     likes = [''u1'', ''u2''], bookmarks = [],
     comments = [\<lparr>cid = 31, userId = 1, c_username = ''alice'', c_content = ''wow'',
                   c_createdAt = 2500\<rparr>],
     createdAt = 2000, updatedAt = 2000\<rparr>"

definition ex_db :: db where
  "ex_db = \<lparr>users = [ex_alice, ex_bob], stories = [ex_story, ex_story2]\<rparr>"

text \<open>
  A Clerk identity with no username and no name parts, and an outside world that knows
  only this identity; a collection of the router with an older story stored before a
  newer one.
\<close>

definition clerk_nameless :: clerk_user where
  "clerk_nameless = \<lparr>cu_id = ''abc'', cu_username = None, firstName = None,
     lastName = None, emailAddresses = [], cu_imageUrl = None\<rparr>"

definition env_nameless :: env where
  "env_nameless = \<lparr>date_now = 5000, new_user_id = 10, new_doc_id = 20,
     getUser = (\<lambda>i. if i = ''abc'' then Returned (Some clerk_nameless) else Returned None),
     deleteUser = (\<lambda>_. Returned ()),
     uploadToImageKit = (\<lambda>f folder. Returned (folder @ ''/'' @ f))\<rparr>"

definition ex_router_collection :: "router_story list" where
  "ex_router_collection =
     [\<lparr>r_title = ''first'', r_content = ''a'', r_imageUrl = ''i1'', r_category = ''General'',
        r_author = ''Unknown'', r_createdAt = 1000\<rparr>,
      \<lparr>r_title = ''second'', r_content = ''b'', r_imageUrl = ''i2'', r_category = ''General'',
        r_author = ''Unknown'', r_createdAt = 2000\<rparr>]"

lemmas ex_defs = ex_db_def ex_story_def ex_story2_def ex_alice_def ex_bob_def ex_env_def
  clerk_alice_def clerk_bob_def

lemmas model_defs = syncUser_def protected_def truthy_def js_to_string_def js_or_def
  findUser_def findUserById_def findById_def save_story_def save_user_def
  refreshed_user_def new_user_def synced_username_def full_name_def first_email_def
  insert_refused_def update_refused_def unique_conflict_def respond_story_def
  format_story_def sync_error_def ClerkExpressRequireAuth_def Let_def

section \<open>Properties\<close>

subsection \<open>Properties of the OTP service\<close>

lemma verify_otp_success_iff:
  "snd (verify_otp otpStore e v now) = OtpSuccess \<longleftrightarrow>
     (\<exists>stored. otpStore e = Some stored \<and> now \<le> expires stored \<and> v = JStr (otp stored))"
  by (auto simp: verify_otp_def strict_eq_str_def split: option.splits jsval.splits)

lemma verify_otp_success_deletes:
  "snd (verify_otp otpStore e v now) = OtpSuccess \<Longrightarrow>
     fst (verify_otp otpStore e v now) = otpStore(e := None)"
  by (auto simp: verify_otp_def split: option.splits if_splits)

lemma verify_otp_absent:
  "otpStore e = None \<Longrightarrow>
     verify_otp otpStore e v now = (otpStore, OtpFailure 400 ''No OTP found for this email'')"
  by (simp add: verify_otp_def)

text \<open>
  C5. Verification succeeds exactly when an entry is stored for the email, the submitted
  value is that entry's code and the current time does not exceed its expiry. The stored
  entry is the one of the most recent \<^verbatim>\<open>/send-otp\<close> for that email, whose expiry is five
  minutes (300000 ms) after its generation: an earlier code for the same email has been
  overwritten. After a successful verification the entry is gone, and a repeated
  verification for the same email, with any code at any time, fails with status 400 and
  the message that no OTP was found.
\<close>

theorem otp_verify_succeeds_iff:
  "(snd (verify_otp otpStore e v now) = OtpSuccess \<longleftrightarrow>
      (\<exists>stored. otpStore e = Some stored \<and> now \<le> expires stored \<and> v = JStr (otp stored)))
   \<and> (snd (verify_otp (fst (send_otp (fst (send_otp otpStore e c1 t1 f1)) e c2 t2 f2)) e v now)
          = OtpSuccess \<longleftrightarrow> v = JStr c2 \<and> now \<le> t2 + 300000)
   \<and> (snd (verify_otp otpStore e v now) = OtpSuccess \<longrightarrow>
        fst (verify_otp otpStore e v now) e = None \<and>
        verify_otp (fst (verify_otp otpStore e v now)) e v' now' =
          (fst (verify_otp otpStore e v now), OtpFailure 400 ''No OTP found for this email''))"
proof (intro conjI impI)
  show "snd (verify_otp otpStore e v now) = OtpSuccess \<longleftrightarrow>
      (\<exists>stored. otpStore e = Some stored \<and> now \<le> expires stored \<and> v = JStr (otp stored))"
    by (rule verify_otp_success_iff)
next
  show "snd (verify_otp (fst (send_otp (fst (send_otp otpStore e c1 t1 f1)) e c2 t2 f2)) e v now)
          = OtpSuccess \<longleftrightarrow> v = JStr c2 \<and> now \<le> t2 + 300000"
    by (auto simp: verify_otp_success_iff send_otp_def Let_def)
next
  assume ok: "snd (verify_otp otpStore e v now) = OtpSuccess"
  then show gone: "fst (verify_otp otpStore e v now) e = None"
    by (simp add: verify_otp_success_deletes)
  then show "verify_otp (fst (verify_otp otpStore e v now)) e v' now' =
          (fst (verify_otp otpStore e v now), OtpFailure 400 ''No OTP found for this email'')"
    by (rule verify_otp_absent)
qed

theorem otp_verify_succeeds_iff_witness:
  "snd (verify_otp (fst (send_otp Map.empty ''a@b.c'' ''123456'' 1000 False))
         ''a@b.c'' (JStr ''123456'') 301000) = OtpSuccess
   \<and> snd (verify_otp (fst (send_otp Map.empty ''a@b.c'' ''123456'' 1000 False))
         ''a@b.c'' (JStr ''123456'') 301001) \<noteq> OtpSuccess
   \<and> snd (verify_otp (fst (send_otp Map.empty ''a@b.c'' ''123456'' 1000 False))
         ''a@b.c'' (JNum 123456) 2000) \<noteq> OtpSuccess
   \<and> verify_otp (fst (verify_otp (fst (send_otp Map.empty ''a@b.c'' ''123456'' 1000 False))
         ''a@b.c'' (JStr ''123456'') 301000)) ''a@b.c'' (JStr ''123456'') 301000
       = (Map.empty, OtpFailure 400 ''No OTP found for this email'')"
proof -
  let ?st = "fst (send_otp Map.empty ''a@b.c'' ''123456'' 1000 False)"
  have st: "?st = [''a@b.c'' \<mapsto> \<lparr>otp = ''123456'', expires = 301000\<rparr>]"
    by (simp add: send_otp_def)
  have ok: "snd (verify_otp ?st ''a@b.c'' (JStr ''123456'') 301000) = OtpSuccess"
    unfolding st by (simp add: verify_otp_def strict_eq_str_def)
  have late: "snd (verify_otp ?st ''a@b.c'' (JStr ''123456'') 301001) \<noteq> OtpSuccess"
    unfolding st by (simp add: verify_otp_def)
  have num: "snd (verify_otp ?st ''a@b.c'' (JNum 123456) 2000) \<noteq> OtpSuccess"
    unfolding st by (simp add: verify_otp_def strict_eq_str_def)
  have fst_ok: "fst (verify_otp ?st ''a@b.c'' (JStr ''123456'') 301000) = Map.empty"
    unfolding st by (simp add: verify_otp_def strict_eq_str_def)
  from otp_verify_succeeds_iff [where otpStore = ?st and e = "''a@b.c''"
      and v = "JStr ''123456''" and now = 301000 and v' = "JStr ''123456''"
      and now' = 301000] ok
  have "verify_otp (fst (verify_otp ?st ''a@b.c'' (JStr ''123456'') 301000)) ''a@b.c''
          (JStr ''123456'') 301000
        = (fst (verify_otp ?st ''a@b.c'' (JStr ''123456'') 301000),
           OtpFailure 400 ''No OTP found for this email'')"
    by blast
  with fst_ok ok late num show ?thesis by simp
qed

text \<open>
  C6. The effect of verification on the store, case by case: with no entry the request
  fails and the store is unchanged; with an expired entry the entry is deleted and the
  request fails as expired; with a live entry and a matching code the entry is deleted and
  the request succeeds; with a live entry and another code the request fails as invalid
  and the store, with that entry, is unchanged, so that a later attempt with the right code
  inside the window still succeeds.
\<close>

theorem otp_verify_store_effect:
  "(otpStore e = None \<longrightarrow>
      verify_otp otpStore e v now = (otpStore, OtpFailure 400 ''No OTP found for this email''))
   \<and> (otpStore e = Some stored \<and> now > expires stored \<longrightarrow>
      verify_otp otpStore e v now = (otpStore(e := None), OtpFailure 400 ''OTP expired''))
   \<and> (otpStore e = Some stored \<and> now \<le> expires stored \<and> v = JStr (otp stored) \<longrightarrow>
      verify_otp otpStore e v now = (otpStore(e := None), OtpSuccess))
   \<and> (otpStore e = Some stored \<and> now \<le> expires stored \<and> v \<noteq> JStr (otp stored) \<longrightarrow>
      verify_otp otpStore e v now = (otpStore, OtpFailure 400 ''Invalid OTP'') \<and>
      (now' \<le> expires stored \<longrightarrow>
         snd (verify_otp (fst (verify_otp otpStore e v now)) e (JStr (otp stored)) now')
           = OtpSuccess))"
  by (auto simp: verify_otp_def strict_eq_str_def split: jsval.splits)

theorem otp_verify_store_effect_witness:
  "verify_otp Map.empty ''a@b.c'' (JStr ''123456'') 5
     = (Map.empty, OtpFailure 400 ''No OTP found for this email'')
   \<and> verify_otp [''a@b.c'' \<mapsto> \<lparr>otp = ''123456'', expires = 300000\<rparr>] ''a@b.c''
       (JStr ''123456'') 300001
     = (Map.empty, OtpFailure 400 ''OTP expired'')
   \<and> verify_otp [''a@b.c'' \<mapsto> \<lparr>otp = ''123456'', expires = 300000\<rparr>] ''a@b.c''
       (JStr ''123456'') 300000
     = (Map.empty, OtpSuccess)
   \<and> verify_otp [''a@b.c'' \<mapsto> \<lparr>otp = ''123456'', expires = 300000\<rparr>] ''a@b.c''
       (JStr ''654321'') 7
     = ([''a@b.c'' \<mapsto> \<lparr>otp = ''123456'', expires = 300000\<rparr>], OtpFailure 400 ''Invalid OTP'')"
proof -
  let ?en = "\<lparr>otp = ''123456'', expires = 300000\<rparr>"
  let ?st = "[''a@b.c'' \<mapsto> ?en]"
  have a: "verify_otp Map.empty ''a@b.c'' (JStr ''123456'') 5
     = (Map.empty, OtpFailure 400 ''No OTP found for this email'')"
    using otp_verify_store_effect [where otpStore = Map.empty and e = "''a@b.c''"
        and v = "JStr ''123456''" and now = 5 and stored = ?en and now' = 0]
    by simp
  have b: "verify_otp ?st ''a@b.c'' (JStr ''123456'') 300001
     = (Map.empty, OtpFailure 400 ''OTP expired'')"
    using otp_verify_store_effect [where otpStore = ?st and e = "''a@b.c''"
        and v = "JStr ''123456''" and now = 300001 and stored = ?en and now' = 0]
    by simp
  have c: "verify_otp ?st ''a@b.c'' (JStr ''123456'') 300000 = (Map.empty, OtpSuccess)"
    using otp_verify_store_effect [where otpStore = ?st and e = "''a@b.c''"
        and v = "JStr ''123456''" and now = 300000 and stored = ?en and now' = 0]
    by simp
  have d: "verify_otp ?st ''a@b.c'' (JStr ''654321'') 7
     = (?st, OtpFailure 400 ''Invalid OTP'')"
    using otp_verify_store_effect [where otpStore = ?st and e = "''a@b.c''"
        and v = "JStr ''654321''" and now = 7 and stored = ?en and now' = 0]
    by simp
  from a b c d show ?thesis by blast
qed

subsection \<open>Arrays, collections and the middleware\<close>

lemma indexOf_from_absent: "x \<notin> set xs \<Longrightarrow> indexOf_from xs x i = -1"
  by (induction xs arbitrary: i) auto

lemma indexOf_from_present:
  "x \<in> set xs \<Longrightarrow> 0 \<le> i \<Longrightarrow>
     i \<le> indexOf_from xs x i \<and> splice1 xs (indexOf_from xs x i - i) = remove1 x xs"
proof (induction xs arbitrary: i)
  case Nil
  then show ?case by simp
next
  case (Cons y ys)
  show ?case
  proof (cases "y = x")
    case True
    then show ?thesis by (simp add: splice1_def)
  next
    case False
    with Cons.prems have mem: "x \<in> set ys" by simp
    from Cons.IH [OF mem, of "i + 1"] Cons.prems(2)
    have ih: "i + 1 \<le> indexOf_from ys x (i + 1)"
      "splice1 ys (indexOf_from ys x (i + 1) - (i + 1)) = remove1 x ys" by simp_all
    from ih(1) have "nat (indexOf_from ys x (i + 1) - i) = Suc (nat (indexOf_from ys x (i + 1) - (i + 1)))"
      by linarith
    with False ih show ?thesis by (simp add: splice1_def)
  qed
qed

lemma toggle_id_eq:
  "toggle_id arr c = (if c \<in> set arr then remove1 c arr else arr @ [c])"
proof (cases "c \<in> set arr")
  case True
  from indexOf_from_present [OF True, of 0] show ?thesis
    using True by (simp add: toggle_id_def indexOf_def Let_def)
next
  case False
  then show ?thesis
    by (simp add: toggle_id_def indexOf_def Let_def indexOf_from_absent push_def)
qed

lemma distinct_toggle_id: "distinct arr \<Longrightarrow> distinct (toggle_id arr c)"
  by (simp add: toggle_id_eq)

lemma toggle_id_flips: "distinct arr \<Longrightarrow> c \<in> set (toggle_id arr c) \<longleftrightarrow> c \<notin> set arr"
  by (simp add: toggle_id_eq)

lemma toggle_id_others: "x \<noteq> c \<Longrightarrow> x \<in> set (toggle_id arr c) \<longleftrightarrow> x \<in> set arr"
  by (auto simp add: toggle_id_eq)

lemma toggle_id_twice_set: "distinct arr \<Longrightarrow> set (toggle_id (toggle_id arr c) c) = set arr"
  by (auto simp add: toggle_id_eq)

lemma find_update_first:
  "find P xs = Some x \<Longrightarrow> P (f x) \<Longrightarrow> find P (update_first P f xs) = Some (f x)"
  by (induction xs) (auto split: if_splits)

lemma find_Some_P: "find P xs = Some x \<Longrightarrow> P x \<and> x \<in> set xs"
  by (induction xs) (auto split: if_splits)

lemma update_first_split:
  "find P xs = Some x \<Longrightarrow>
     \<exists>pre post. xs = pre @ x # post \<and> (\<forall>y\<in>set pre. \<not> P y) \<and> update_first P f xs = pre @ f x # post"
proof (induction xs)
  case Nil
  then show ?case by simp
next
  case (Cons a xs)
  show ?case
  proof (cases "P a")
    case True
    with Cons.prems have "a = x" by simp
    with True show ?thesis by (intro exI [of _ "[]"] exI [of _ xs]) simp
  next
    case False
    with Cons.prems have "find P xs = Some x" by simp
    from Cons.IH [OF this] obtain pre post where
      "xs = pre @ x # post" "\<forall>y\<in>set pre. \<not> P y" "update_first P f xs = pre @ f x # post"
      by blast
    with False show ?thesis by (intro exI [of _ "a # pre"] exI [of _ post]) simp
  qed
qed

lemma syncUser_stories: "syncUser e d auth = (d1, x) \<Longrightarrow> stories d1 = stories d"
  by (auto simp: syncUser_def Let_def split: if_splits outcome.splits option.splits)

lemma syncUser_status: "syncUser e d auth = (d1, Inl r) \<Longrightarrow> status r \<in> {401, 404, 500}"
  by (auto simp: syncUser_def Let_def sync_error_def split: if_splits outcome.splits option.splits)

lemma syncUser_refused: "syncUser e d auth = (d', Inl r) \<Longrightarrow> d' = d"
  by (auto simp: syncUser_def Let_def split: if_splits outcome.splits option.splits)

lemma syncUser_passed_truthy: "syncUser e d auth = (d1, Inr u) \<Longrightarrow> truthy auth"
  by (auto simp: syncUser_def split: if_splits)


lemma findById_sid: "findById ss i = Some s \<Longrightarrow> sid s = i \<and> s \<in> set ss"
  unfolding findById_def by (drule find_Some_P) simp

lemma findById_save_story:
  "findById ss i = Some s \<Longrightarrow> sid s' = i \<Longrightarrow> findById (save_story s' ss) i = Some s'"
proof -
  assume a: "findById ss i = Some s" and b: "sid s' = i"
  from a have "find (\<lambda>x. sid x = i) ss = Some s" by (simp add: findById_def)
  from find_update_first [OF this, of "\<lambda>_. s'"] b
  show ?thesis by (simp add: findById_def save_story_def)
qed

lemma respond_saved:
  "findById (stories d) i = Some s \<Longrightarrow> sid s' = i \<Longrightarrow>
     respond_story (d\<lparr>stories := save_story s' (stories d)\<rparr>) i code p
       = StoryJson code (format_story (users d) s')"
  by (simp add: respond_story_def findById_save_story)

lemma like_story_found:
  "findById (stories d) i = Some s \<Longrightarrow>
     like_story c (Oid i) d u =
       (d\<lparr>stories := save_story (s\<lparr>likes := toggle_id (likes s) c\<rparr>) (stories d)\<rparr>,
        StoryJson 200 (format_story (users d) (s\<lparr>likes := toggle_id (likes s) c\<rparr>)))"
  by (frule findById_sid) (simp add: like_story_def Let_def respond_saved)

lemma like_story_missing:
  "findById (stories d) i = None \<Longrightarrow> like_story c (Oid i) d u = (d, Failure 404 ''Story not found'')"
  by (simp add: like_story_def)

lemma bookmark_story_found:
  "findById (stories d) i = Some s \<Longrightarrow>
     bookmark_story c (Oid i) d u =
       (d\<lparr>stories := save_story (s\<lparr>bookmarks := toggle_id (bookmarks s) c\<rparr>) (stories d)\<rparr>,
        StoryJson 200 (format_story (users d) (s\<lparr>bookmarks := toggle_id (bookmarks s) c\<rparr>)))"
  by (frule findById_sid) (simp add: bookmark_story_def Let_def respond_saved)

lemma bookmark_story_missing:
  "findById (stories d) i = None \<Longrightarrow>
     bookmark_story c (Oid i) d u = (d, Failure 404 ''Story not found'')"
  by (simp add: bookmark_story_def)

lemma protected_cases:
  assumes "protected e d auth h = (d', r)"
  obtains (refused) "d' = d" "status r \<in> {401, 404, 500}"
  | (passed) d1 u where "syncUser e d auth = (d1, Inr u)" "h d1 u = (d', r)"
proof (cases "truthy auth")
  case False
  with assms have "d' = d" "status r = 500"
    by (auto simp: protected_def ClerkExpressRequireAuth_def)
  then show ?thesis by (intro refused) simp_all
next
  case True
  obtain d1 x where sy: "syncUser e d auth = (d1, x)" by (cases "syncUser e d auth")
  show ?thesis
  proof (cases x)
    case (Inl r')
    with sy True assms have "d' = d1" "r = r'"
      by (auto simp: protected_def ClerkExpressRequireAuth_def)
    with sy Inl syncUser_refused [of e d auth d1 r'] syncUser_status [of e d auth d1 r']
    show ?thesis by (intro refused) simp_all
  next
    case (Inr u)
    with sy True assms have "h d1 u = (d', r)"
      by (auto simp: protected_def ClerkExpressRequireAuth_def)
    with sy Inr show ?thesis by (intro passed [of d1 u]) simp_all
  qed
qed

lemma protected_ok:
  assumes "protected e d auth h = (d', r)" and "status r \<notin> {401, 404, 500}"
  shows "\<exists>d1 u. syncUser e d auth = (d1, Inr u) \<and> h d1 u = (d', r)"
  using assms(1)
proof (cases rule: protected_cases)
  case refused
  with assms(2) show ?thesis by simp
next
  case (passed d1 u)
  then show ?thesis by blast
qed

lemma like_once:
  assumes found: "findById (stories d) i = Some s"
    and run: "handle e d (LikeStory auth (Oid i)) = (d', r)" and ok: "status r = 200"
  shows "findById (stories d') i = Some (s\<lparr>likes := toggle_id (likes s) (js_to_string auth)\<rparr>)"
proof -
  from run ok obtain d1 u where
    sy: "syncUser e d auth = (d1, Inr u)" and
    h: "like_story (js_to_string auth) (Oid i) d1 u = (d', r)"
    using protected_ok [of e d auth "like_story (js_to_string auth) (Oid i)" d' r] by auto
  from syncUser_stories [OF sy] found have f1: "findById (stories d1) i = Some s" by simp
  from h like_story_found [OF f1, of "js_to_string auth" u]
  have "stories d' = save_story (s\<lparr>likes := toggle_id (likes s) (js_to_string auth)\<rparr>) (stories d1)"
    by auto
  with f1 findById_sid [OF f1] show ?thesis by (simp add: findById_save_story)
qed

lemma bookmark_once:
  assumes found: "findById (stories d) i = Some s"
    and run: "handle e d (BookmarkStory auth (Oid i)) = (d', r)" and ok: "status r = 200"
  shows "findById (stories d') i
           = Some (s\<lparr>bookmarks := toggle_id (bookmarks s) (js_to_string auth)\<rparr>)"
proof -
  from run ok obtain d1 u where
    sy: "syncUser e d auth = (d1, Inr u)" and
    h: "bookmark_story (js_to_string auth) (Oid i) d1 u = (d', r)"
    using protected_ok [of e d auth "bookmark_story (js_to_string auth) (Oid i)" d' r] by auto
  from syncUser_stories [OF sy] found have f1: "findById (stories d1) i = Some s" by simp
  from h bookmark_story_found [OF f1, of "js_to_string auth" u]
  have "stories d' = save_story (s\<lparr>bookmarks := toggle_id (bookmarks s) (js_to_string auth)\<rparr>) (stories d1)"
    by auto
  with f1 findById_sid [OF f1] show ?thesis by (simp add: findById_save_story)
qed

subsection \<open>Likes and bookmarks\<close>

text \<open>
  C1. For a stored story whose \<^verbatim>\<open>likes\<close> array has no duplicate, a like request that
  succeeds (status 200) flips the membership of the caller's Clerk id in the story's
  \<^verbatim>\<open>likes\<close>, a second successful like request of the same caller flips it back, and
  after the two requests the array has the members it had. The same holds for the
  bookmark request and \<^verbatim>\<open>bookmarks\<close>. That the arrays have no duplicate is the
  invariant of the data model, which every request preserves (C2).
\<close>

theorem toggle_flips_membership:
  assumes found: "findById (stories d) i = Some s"
    and dist: "distinct (likes s)" "distinct (bookmarks s)"
  shows "(handle e1 d (LikeStory auth (Oid i)) = (d1, r1) \<and> status r1 = 200 \<and>
          handle e2 d1 (LikeStory auth (Oid i)) = (d2, r2) \<and> status r2 = 200 \<longrightarrow>
            (\<exists>s1 s2. findById (stories d1) i = Some s1 \<and> findById (stories d2) i = Some s2 \<and>
               (js_to_string auth \<in> set (likes s1) \<longleftrightarrow> js_to_string auth \<notin> set (likes s)) \<and>
               (js_to_string auth \<in> set (likes s2) \<longleftrightarrow> js_to_string auth \<notin> set (likes s1)) \<and>
               set (likes s2) = set (likes s)))
       \<and> (handle e1 d (BookmarkStory auth (Oid i)) = (b1, q1) \<and> status q1 = 200 \<and>
          handle e2 b1 (BookmarkStory auth (Oid i)) = (b2, q2) \<and> status q2 = 200 \<longrightarrow>
            (\<exists>s1 s2. findById (stories b1) i = Some s1 \<and> findById (stories b2) i = Some s2 \<and>
               (js_to_string auth \<in> set (bookmarks s1) \<longleftrightarrow> js_to_string auth \<notin> set (bookmarks s)) \<and>
               (js_to_string auth \<in> set (bookmarks s2) \<longleftrightarrow> js_to_string auth \<notin> set (bookmarks s1)) \<and>
               set (bookmarks s2) = set (bookmarks s)))"
proof (intro conjI impI)
  let ?c = "js_to_string auth"
  assume a: "handle e1 d (LikeStory auth (Oid i)) = (d1, r1) \<and> status r1 = 200 \<and>
          handle e2 d1 (LikeStory auth (Oid i)) = (d2, r2) \<and> status r2 = 200"
  let ?s1 = "s\<lparr>likes := toggle_id (likes s) ?c\<rparr>"
  let ?s2 = "?s1\<lparr>likes := toggle_id (likes ?s1) ?c\<rparr>"
  from a like_once [OF found] have f1: "findById (stories d1) i = Some ?s1" by blast
  from a like_once [OF f1] have f2: "findById (stories d2) i = Some ?s2" by blast
  have "(?c \<in> set (likes ?s1) \<longleftrightarrow> ?c \<notin> set (likes s))"
    using dist(1) by (simp add: toggle_id_flips)
  moreover have "(?c \<in> set (likes ?s2) \<longleftrightarrow> ?c \<notin> set (likes ?s1))"
    using dist(1) by (simp add: toggle_id_flips distinct_toggle_id)
  moreover have "set (likes ?s2) = set (likes s)"
    using dist(1) by (simp add: toggle_id_twice_set)
  ultimately show "\<exists>s1 s2. findById (stories d1) i = Some s1 \<and> findById (stories d2) i = Some s2 \<and>
               (?c \<in> set (likes s1) \<longleftrightarrow> ?c \<notin> set (likes s)) \<and>
               (?c \<in> set (likes s2) \<longleftrightarrow> ?c \<notin> set (likes s1)) \<and>
               set (likes s2) = set (likes s)"
    using f1 f2 by blast
next
  let ?c = "js_to_string auth"
  assume a: "handle e1 d (BookmarkStory auth (Oid i)) = (b1, q1) \<and> status q1 = 200 \<and>
          handle e2 b1 (BookmarkStory auth (Oid i)) = (b2, q2) \<and> status q2 = 200"
  let ?s1 = "s\<lparr>bookmarks := toggle_id (bookmarks s) ?c\<rparr>"
  let ?s2 = "?s1\<lparr>bookmarks := toggle_id (bookmarks ?s1) ?c\<rparr>"
  from a bookmark_once [OF found] have f1: "findById (stories b1) i = Some ?s1" by blast
  from a bookmark_once [OF f1] have f2: "findById (stories b2) i = Some ?s2" by blast
  have "(?c \<in> set (bookmarks ?s1) \<longleftrightarrow> ?c \<notin> set (bookmarks s))"
    using dist(2) by (simp add: toggle_id_flips)
  moreover have "(?c \<in> set (bookmarks ?s2) \<longleftrightarrow> ?c \<notin> set (bookmarks ?s1))"
    using dist(2) by (simp add: toggle_id_flips distinct_toggle_id)
  moreover have "set (bookmarks ?s2) = set (bookmarks s)"
    using dist(2) by (simp add: toggle_id_twice_set)
  ultimately show "\<exists>s1 s2. findById (stories b1) i = Some s1 \<and> findById (stories b2) i = Some s2 \<and>
               (?c \<in> set (bookmarks s1) \<longleftrightarrow> ?c \<notin> set (bookmarks s)) \<and>
               (?c \<in> set (bookmarks s2) \<longleftrightarrow> ?c \<notin> set (bookmarks s1)) \<and>
               set (bookmarks s2) = set (bookmarks s)"
    using f1 f2 by blast
qed

theorem toggle_flips_membership_witness:
  "findById (stories ex_db) 7 = Some ex_story
   \<and> distinct (likes ex_story) \<and> distinct (bookmarks ex_story)
   \<and> status (snd (handle ex_env ex_db (LikeStory (Some ''u1'') (Oid 7)))) = 200
   \<and> status (snd (handle ex_env (fst (handle ex_env ex_db (LikeStory (Some ''u1'') (Oid 7))))
                   (LikeStory (Some ''u1'') (Oid 7)))) = 200
   \<and> (\<exists>s1 s2.
         findById (stories (fst (handle ex_env ex_db (LikeStory (Some ''u1'') (Oid 7))))) 7 = Some s1 \<and>
         findById (stories (fst (handle ex_env (fst (handle ex_env ex_db (LikeStory (Some ''u1'') (Oid 7))))
                   (LikeStory (Some ''u1'') (Oid 7))))) 7 = Some s2 \<and>
         ''u1'' \<notin> set (likes ex_story) \<and> ''u1'' \<in> set (likes s1) \<and> ''u1'' \<notin> set (likes s2) \<and>
         set (likes s2) = set (likes ex_story))
   \<and> status (snd (handle ex_env ex_db (BookmarkStory (Some ''u1'') (Oid 7)))) = 200
   \<and> status (snd (handle ex_env (fst (handle ex_env ex_db (BookmarkStory (Some ''u1'') (Oid 7))))
                   (BookmarkStory (Some ''u1'') (Oid 7)))) = 200
   \<and> (\<exists>s1 s2.
         findById (stories (fst (handle ex_env ex_db (BookmarkStory (Some ''u1'') (Oid 7))))) 7 = Some s1 \<and>
         findById (stories (fst (handle ex_env (fst (handle ex_env ex_db (BookmarkStory (Some ''u1'') (Oid 7))))
                   (BookmarkStory (Some ''u1'') (Oid 7))))) 7 = Some s2 \<and>
         ''u1'' \<in> set (bookmarks ex_story) \<and> ''u1'' \<notin> set (bookmarks s1) \<and>
         ''u1'' \<in> set (bookmarks s2) \<and> set (bookmarks s2) = set (bookmarks ex_story))"
proof -
  let ?L = "LikeStory (Some ''u1'') (Oid 7)" and ?B = "BookmarkStory (Some ''u1'') (Oid 7)"
  let ?d1 = "fst (handle ex_env ex_db ?L)" and ?b1 = "fst (handle ex_env ex_db ?B)"
  have found: "findById (stories ex_db) 7 = Some ex_story"
    by (simp add: ex_defs findById_def)
  have dist: "distinct (likes ex_story)" "distinct (bookmarks ex_story)"
    by (simp_all add: ex_story_def)
  have d1: "?d1 = \<lparr>users = [ex_alice\<lparr>u_updatedAt := 5000\<rparr>, ex_bob],
        stories = [ex_story\<lparr>likes := [''u2'', ''u1'']\<rparr>, ex_story2]\<rparr>"
    by (simp add: ex_defs model_defs like_story_def toggle_id_eq)
  have l1: "status (snd (handle ex_env ex_db ?L)) = 200"
    by (simp add: ex_defs model_defs like_story_def toggle_id_eq)
  have l2: "status (snd (handle ex_env ?d1 ?L)) = 200"
    unfolding d1 by (simp add: ex_defs model_defs like_story_def toggle_id_eq)
  have b1: "?b1 = \<lparr>users = [ex_alice\<lparr>u_updatedAt := 5000\<rparr>, ex_bob],
        stories = [ex_story\<lparr>bookmarks := []\<rparr>, ex_story2]\<rparr>"
    by (simp add: ex_defs model_defs bookmark_story_def toggle_id_eq)
  have q1: "status (snd (handle ex_env ex_db ?B)) = 200"
    by (simp add: ex_defs model_defs bookmark_story_def toggle_id_eq)
  have q2: "status (snd (handle ex_env ?b1 ?B)) = 200"
    unfolding b1 by (simp add: ex_defs model_defs bookmark_story_def toggle_id_eq)
  have mem: "''u1'' \<notin> set (likes ex_story)" "''u1'' \<in> set (bookmarks ex_story)"
    by (simp_all add: ex_story_def)
  note t = toggle_flips_membership [OF found dist, where auth = "Some ''u1''"
      and ?e1.0 = ex_env and ?e2.0 = ex_env
      and ?d1.0 = ?d1 and ?r1.0 = "snd (handle ex_env ex_db ?L)"
      and ?d2.0 = "fst (handle ex_env ?d1 ?L)" and ?r2.0 = "snd (handle ex_env ?d1 ?L)"
      and ?b1.0 = ?b1 and ?q1.0 = "snd (handle ex_env ex_db ?B)"
      and ?b2.0 = "fst (handle ex_env ?b1 ?B)" and ?q2.0 = "snd (handle ex_env ?b1 ?B)"]
  from t l1 l2 mem(1) have like: "\<exists>s1 s2.
         findById (stories ?d1) 7 = Some s1 \<and>
         findById (stories (fst (handle ex_env ?d1 ?L))) 7 = Some s2 \<and>
         ''u1'' \<notin> set (likes ex_story) \<and> ''u1'' \<in> set (likes s1) \<and> ''u1'' \<notin> set (likes s2) \<and>
         set (likes s2) = set (likes ex_story)"
    by (simp add: js_to_string_def) blast
  from t q1 q2 mem(2) have bm: "\<exists>s1 s2.
         findById (stories ?b1) 7 = Some s1 \<and>
         findById (stories (fst (handle ex_env ?b1 ?B))) 7 = Some s2 \<and>
         ''u1'' \<in> set (bookmarks ex_story) \<and> ''u1'' \<notin> set (bookmarks s1) \<and>
         ''u1'' \<in> set (bookmarks s2) \<and> set (bookmarks s2) = set (bookmarks ex_story)"
    by (simp add: js_to_string_def) blast
  from found dist l1 l2 like q1 q2 bm show ?thesis by blast
qed

subsection \<open>A toggle changes one field of one story\<close>

lemma save_story_split:
  assumes "findById ss i = Some s" and "sid s' = i"
  shows "\<exists>pre post. ss = pre @ s # post \<and> (\<forall>y\<in>set pre. sid y \<noteq> i) \<and>
           save_story s' ss = pre @ s' # post"
proof -
  from assms(1) have "find (\<lambda>x. sid x = i) ss = Some s" by (simp add: findById_def)
  from update_first_split [OF this, of "\<lambda>_. s'"] assms(2)
  show ?thesis by (simp add: save_story_def)
qed

lemma like_frame:
  assumes run: "handle e d (LikeStory auth rid) = (d', r)"
  shows "(status r \<noteq> 200 \<and> stories d' = stories d) \<or>
         (status r = 200 \<and> (\<exists>pre s post. stories d = pre @ s # post \<and> rid = Oid (sid s) \<and>
            (\<forall>y\<in>set pre. Oid (sid y) \<noteq> rid) \<and>
            stories d' = pre @ s\<lparr>likes := toggle_id (likes s) (js_to_string auth)\<rparr> # post))"
proof -
  from run have "protected e d auth (like_story (js_to_string auth) rid) = (d', r)" by simp
  then show ?thesis
  proof (cases rule: protected_cases)
    case refused
    then show ?thesis by auto
  next
    case (passed d1 u)
    from syncUser_stories [OF passed(1)] have st: "stories d1 = stories d" .
    show ?thesis
    proof (cases rid)
      case (NotAnObjectId x)
      with passed(2) st show ?thesis by (auto simp: like_story_def)
    next
      case (Oid i)
      show ?thesis
      proof (cases "findById (stories d1) i")
        case None
        from passed(2) like_story_missing [OF None, of "js_to_string auth" u] st Oid
        show ?thesis by auto
      next
        case (Some s)
        let ?s' = "s\<lparr>likes := toggle_id (likes s) (js_to_string auth)\<rparr>"
        from findById_sid [OF Some] have sid: "sid s = i" by simp
        then have sid': "sid ?s' = i" by simp
        from passed(2) like_story_found [OF Some, of "js_to_string auth" u] Oid
        have res: "stories d' = save_story ?s' (stories d1)" "status r = 200" by auto
        from save_story_split [OF Some sid'] obtain pre post where
          "stories d1 = pre @ s # post" "\<forall>y\<in>set pre. sid y \<noteq> i"
          "save_story ?s' (stories d1) = pre @ ?s' # post" by blast
        with res st sid Oid have "stories d = pre @ s # post \<and> rid = Oid (sid s) \<and>
            (\<forall>y\<in>set pre. Oid (sid y) \<noteq> rid) \<and> stories d' = pre @ ?s' # post" by simp
        then have "\<exists>pre s post. stories d = pre @ s # post \<and> rid = Oid (sid s) \<and>
              (\<forall>y\<in>set pre. Oid (sid y) \<noteq> rid) \<and>
              stories d' = pre @ s\<lparr>likes := toggle_id (likes s) (js_to_string auth)\<rparr> # post"
          by blast
        with res(2) show ?thesis by blast
      qed
    qed
  qed
qed

lemma bookmark_frame:
  assumes run: "handle e d (BookmarkStory auth rid) = (d', r)"
  shows "(status r \<noteq> 200 \<and> stories d' = stories d) \<or>
         (status r = 200 \<and> (\<exists>pre s post. stories d = pre @ s # post \<and> rid = Oid (sid s) \<and>
            (\<forall>y\<in>set pre. Oid (sid y) \<noteq> rid) \<and>
            stories d' = pre @ s\<lparr>bookmarks := toggle_id (bookmarks s) (js_to_string auth)\<rparr> # post))"
proof -
  from run have "protected e d auth (bookmark_story (js_to_string auth) rid) = (d', r)" by simp
  then show ?thesis
  proof (cases rule: protected_cases)
    case refused
    then show ?thesis by auto
  next
    case (passed d1 u)
    from syncUser_stories [OF passed(1)] have st: "stories d1 = stories d" .
    show ?thesis
    proof (cases rid)
      case (NotAnObjectId x)
      with passed(2) st show ?thesis by (auto simp: bookmark_story_def)
    next
      case (Oid i)
      show ?thesis
      proof (cases "findById (stories d1) i")
        case None
        from passed(2) bookmark_story_missing [OF None, of "js_to_string auth" u] st Oid
        show ?thesis by auto
      next
        case (Some s)
        let ?s' = "s\<lparr>bookmarks := toggle_id (bookmarks s) (js_to_string auth)\<rparr>"
        from findById_sid [OF Some] have sid: "sid s = i" by simp
        then have sid': "sid ?s' = i" by simp
        from passed(2) bookmark_story_found [OF Some, of "js_to_string auth" u] Oid
        have res: "stories d' = save_story ?s' (stories d1)" "status r = 200" by auto
        from save_story_split [OF Some sid'] obtain pre post where
          "stories d1 = pre @ s # post" "\<forall>y\<in>set pre. sid y \<noteq> i"
          "save_story ?s' (stories d1) = pre @ ?s' # post" by blast
        with res st sid Oid have "stories d = pre @ s # post \<and> rid = Oid (sid s) \<and>
            (\<forall>y\<in>set pre. Oid (sid y) \<noteq> rid) \<and> stories d' = pre @ ?s' # post" by simp
        then have "\<exists>pre s post. stories d = pre @ s # post \<and> rid = Oid (sid s) \<and>
              (\<forall>y\<in>set pre. Oid (sid y) \<noteq> rid) \<and>
              stories d' = pre @ s\<lparr>bookmarks := toggle_id (bookmarks s) (js_to_string auth)\<rparr> # post"
          by blast
        with res(2) show ?thesis by blast
      qed
    qed
  qed
qed

text \<open>
  C10. A like request changes nothing in the story collection but the \<^verbatim>\<open>likes\<close> array
  of the story it names: when it does not answer 200 the collection is as it was, and when
  it answers 200 the collection is the one before with that story's \<^verbatim>\<open>likes\<close> replaced,
  every other field of the story (title, content, category, authorId, author,
  authorImage, the media URLs, bookmarks, comments, createdAt, updatedAt) and every other
  story being the same. A bookmark request does the same with \<^verbatim>\<open>bookmarks\<close>. This holds
  for every id of the route, well formed or not.
\<close>

theorem toggle_changes_one_field:
  "(handle e d (LikeStory auth rid) = (d', r) \<longrightarrow>
      (status r \<noteq> 200 \<and> stories d' = stories d) \<or>
      (status r = 200 \<and> (\<exists>pre s post. stories d = pre @ s # post \<and> rid = Oid (sid s) \<and>
          (\<forall>y\<in>set pre. Oid (sid y) \<noteq> rid) \<and>
          stories d' = pre @ s\<lparr>likes := toggle_id (likes s) (js_to_string auth)\<rparr> # post)))
   \<and> (handle e d (BookmarkStory auth rid) = (b', q) \<longrightarrow>
      (status q \<noteq> 200 \<and> stories b' = stories d) \<or>
      (status q = 200 \<and> (\<exists>pre s post. stories d = pre @ s # post \<and> rid = Oid (sid s) \<and>
          (\<forall>y\<in>set pre. Oid (sid y) \<noteq> rid) \<and>
          stories b' = pre @ s\<lparr>bookmarks := toggle_id (bookmarks s) (js_to_string auth)\<rparr> # post)))"
  using like_frame [of e d auth rid d' r] bookmark_frame [of e d auth rid b' q] by blast

theorem toggle_changes_one_field_witness:
  "status (snd (handle ex_env ex_db (LikeStory (Some ''u1'') (Oid 8)))) = 200
   \<and> (\<exists>pre s post. stories ex_db = pre @ s # post \<and> sid s = 8 \<and>
         stories (fst (handle ex_env ex_db (LikeStory (Some ''u1'') (Oid 8))))
           = pre @ s\<lparr>likes := toggle_id (likes s) ''u1''\<rparr> # post)
   \<and> stories (fst (handle ex_env ex_db (LikeStory (Some ''u1'') (Oid 8))))
         = [ex_story, ex_story2\<lparr>likes := [''u2'']\<rparr>]
   \<and> status (snd (handle ex_env ex_db (BookmarkStory (Some ''u1'') (Oid 8)))) = 200
   \<and> (\<exists>pre s post. stories ex_db = pre @ s # post \<and> sid s = 8 \<and>
         stories (fst (handle ex_env ex_db (BookmarkStory (Some ''u1'') (Oid 8))))
           = pre @ s\<lparr>bookmarks := toggle_id (bookmarks s) ''u1''\<rparr> # post)
   \<and> stories (fst (handle ex_env ex_db (BookmarkStory (Some ''u1'') (Oid 8))))
         = [ex_story, ex_story2\<lparr>bookmarks := [''u1'']\<rparr>]
   \<and> status (snd (handle ex_env ex_db (LikeStory (Some ''u1'') (Oid 9)))) = 404
   \<and> stories (fst (handle ex_env ex_db (LikeStory (Some ''u1'') (Oid 9)))) = stories ex_db"
proof -
  let ?L = "LikeStory (Some ''u1'') (Oid 8)" and ?B = "BookmarkStory (Some ''u1'') (Oid 8)"
  let ?M = "LikeStory (Some ''u1'') (Oid 9)"
  have l: "status (snd (handle ex_env ex_db ?L)) = 200"
    by (simp add: ex_defs model_defs like_story_def toggle_id_eq)
  have lv: "stories (fst (handle ex_env ex_db ?L)) = [ex_story, ex_story2\<lparr>likes := [''u2'']\<rparr>]"
    by (simp add: ex_defs model_defs like_story_def toggle_id_eq)
  have b: "status (snd (handle ex_env ex_db ?B)) = 200"
    by (simp add: ex_defs model_defs bookmark_story_def toggle_id_eq)
  have bv: "stories (fst (handle ex_env ex_db ?B)) = [ex_story, ex_story2\<lparr>bookmarks := [''u1'']\<rparr>]"
    by (simp add: ex_defs model_defs bookmark_story_def toggle_id_eq)
  have m: "status (snd (handle ex_env ex_db ?M)) = 404"
    by (simp add: ex_defs model_defs like_story_def)
  note t = toggle_changes_one_field [where e = ex_env and d = ex_db and auth = "Some ''u1''"]
  from t [where rid = "Oid 8" and d' = "fst (handle ex_env ex_db ?L)" and r = "snd (handle ex_env ex_db ?L)"] l
  have lf: "\<exists>pre s post. stories ex_db = pre @ s # post \<and> sid s = 8 \<and>
         stories (fst (handle ex_env ex_db ?L)) = pre @ s\<lparr>likes := toggle_id (likes s) ''u1''\<rparr> # post"
    by (simp add: js_to_string_def) blast
  from t [where rid = "Oid 8" and b' = "fst (handle ex_env ex_db ?B)" and q = "snd (handle ex_env ex_db ?B)"] b
  have bf: "\<exists>pre s post. stories ex_db = pre @ s # post \<and> sid s = 8 \<and>
         stories (fst (handle ex_env ex_db ?B)) = pre @ s\<lparr>bookmarks := toggle_id (bookmarks s) ''u1''\<rparr> # post"
    by (simp add: js_to_string_def) blast
  from t [where rid = "Oid 9" and d' = "fst (handle ex_env ex_db ?M)" and r = "snd (handle ex_env ex_db ?M)"] m
  have mf: "stories (fst (handle ex_env ex_db ?M)) = stories ex_db"
    by simp
  from l lf lv b bf bv m mf show ?thesis by blast
qed

subsection \<open>The arrays of likes and bookmarks have no duplicates\<close>

lemma list_all_update_first:
  "list_all P xs \<Longrightarrow> P y \<Longrightarrow> list_all P (update_first Q (\<lambda>_. y) xs)"
  by (induction xs) auto

lemma list_all_delete_first: "list_all P xs \<Longrightarrow> list_all P (delete_first Q xs)"
  by (induction xs) auto

lemma list_all_findById: "list_all P ss \<Longrightarrow> findById ss i = Some s \<Longrightarrow> P s"
  by (auto dest: findById_sid simp: list_all_iff)

lemma nd_save_story:
  assumes "no_duplicates d" and "findById (stories d) i = Some s"
    and "distinct (likes s')" and "distinct (bookmarks s')"
  shows "no_duplicates (d\<lparr>stories := save_story s' (stories d)\<rparr>)"
  using assms by (simp add: no_duplicates_def save_story_def list_all_update_first)

lemma nd_found:
  "no_duplicates d \<Longrightarrow> findById (stories d) i = Some s \<Longrightarrow>
     distinct (likes s) \<and> distinct (bookmarks s)"
  unfolding no_duplicates_def by (drule list_all_findById) auto

lemma nd_create_story:
  "no_duplicates d \<Longrightarrow> no_duplicates (fst (create_story e t c cat f1 f2 f3 d u))"
  by (auto simp: create_story_def no_duplicates_def Let_def split: outcome.splits)

lemma nd_update_story:
  assumes "no_duplicates d"
  shows "no_duplicates (fst (update_story e rid t c cat f1 f2 f3 d u))"
proof (cases rid)
  case (NotAnObjectId x)
  with assms show ?thesis by (simp add: update_story_def)
next
  case (Oid i)
  show ?thesis
  proof (cases "findById (stories d) i")
    case None
    with assms Oid show ?thesis by (simp add: update_story_def)
  next
    case (Some s)
    from nd_found [OF assms Some] nd_save_story [OF assms Some] assms Some Oid
    show ?thesis
      by (auto simp: update_story_def Let_def split: outcome.splits)
  qed
qed

lemma nd_delete_story: "no_duplicates d \<Longrightarrow> no_duplicates (fst (delete_story rid d u))"
  by (auto simp: delete_story_def no_duplicates_def list_all_delete_first
      split: option.splits route_id.splits)

lemma nd_like_story:
  assumes "no_duplicates d"
  shows "no_duplicates (fst (like_story c rid d u))"
proof (cases rid)
  case (NotAnObjectId x)
  with assms show ?thesis by (simp add: like_story_def)
next
  case (Oid i)
  show ?thesis
  proof (cases "findById (stories d) i")
    case None
    with assms Oid show ?thesis by (simp add: like_story_def)
  next
    case (Some s)
    from nd_found [OF assms Some] nd_save_story [OF assms Some] assms Some Oid
    show ?thesis
      by (simp add: like_story_def Let_def distinct_toggle_id)
  qed
qed

lemma nd_bookmark_story:
  assumes "no_duplicates d"
  shows "no_duplicates (fst (bookmark_story c rid d u))"
proof (cases rid)
  case (NotAnObjectId x)
  with assms show ?thesis by (simp add: bookmark_story_def)
next
  case (Oid i)
  show ?thesis
  proof (cases "findById (stories d) i")
    case None
    with assms Oid show ?thesis by (simp add: bookmark_story_def)
  next
    case (Some s)
    from nd_found [OF assms Some] nd_save_story [OF assms Some] assms Some Oid
    show ?thesis
      by (simp add: bookmark_story_def Let_def distinct_toggle_id)
  qed
qed

lemma nd_add_comment:
  assumes "no_duplicates d"
  shows "no_duplicates (fst (add_comment e rid c d u))"
proof (cases rid)
  case (NotAnObjectId x)
  with assms show ?thesis by (simp add: add_comment_def)
next
  case (Oid i)
  show ?thesis
  proof (cases "findById (stories d) i")
    case None
    with assms Oid show ?thesis by (simp add: add_comment_def)
  next
    case (Some s)
    from nd_found [OF assms Some] nd_save_story [OF assms Some] assms Some Oid
    show ?thesis
      by (simp add: add_comment_def Let_def)
  qed
qed

lemma nd_delete_comment:
  assumes "no_duplicates d"
  shows "no_duplicates (fst (delete_comment rid j d u))"
proof (cases rid)
  case (NotAnObjectId x)
  with assms show ?thesis by (simp add: delete_comment_def)
next
  case (Oid i)
  show ?thesis
  proof (cases "findById (stories d) i")
    case None
    with assms Oid show ?thesis by (simp add: delete_comment_def)
  next
    case (Some s)
    from nd_found [OF assms Some] nd_save_story [OF assms Some] assms Some Oid
    show ?thesis
      by (simp add: delete_comment_def Let_def split: option.splits)
  qed
qed

lemma nd_update_profile:
  "no_duplicates d \<Longrightarrow> no_duplicates (fst (update_profile e i n b f d u))"
  by (auto simp: update_profile_def no_duplicates_def Let_def split: outcome.splits option.splits)

lemma distinct_pull_user:
  "distinct (likes s) \<and> distinct (bookmarks s) \<Longrightarrow>
     distinct (likes (pull_user c i s)) \<and> distinct (bookmarks (pull_user c i s))"
  by (simp add: pull_user_def distinct_removeAll)

lemma nd_delete_profile:
  assumes "no_duplicates d"
  shows "no_duplicates (fst (delete_profile e c d u))"
proof -
  have "list_all (\<lambda>s. distinct (likes s) \<and> distinct (bookmarks s))
          (map (pull_user c i) (filter (\<lambda>s. authorId s \<noteq> i) (stories d)))" for i
    using assms distinct_pull_user unfolding no_duplicates_def list_all_iff by auto
  with assms show ?thesis
    by (auto simp: delete_profile_def Let_def no_duplicates_def split: option.splits outcome.splits)
qed

lemma nd_syncUser: "no_duplicates d \<Longrightarrow> syncUser e d auth = (d1, x) \<Longrightarrow> no_duplicates d1"
  by (drule syncUser_stories) (simp add: no_duplicates_def)

lemma nd_protected:
  assumes inv: "no_duplicates d" and h: "\<And>d1 u. no_duplicates d1 \<Longrightarrow> no_duplicates (fst (h d1 u))"
  shows "no_duplicates (fst (protected e d auth h))"
proof (cases "syncUser e d auth")
  case (Pair d1 x)
  from nd_syncUser [OF inv Pair] have "no_duplicates d1" .
  with h Pair inv show ?thesis
    by (cases x) (simp_all add: protected_def ClerkExpressRequireAuth_def)
qed

lemma nd_handle:
  assumes "no_duplicates d"
  shows "no_duplicates (fst (handle e d req))"
proof (cases req)
  case GetStories
  with assms show ?thesis by simp
next
  case (GetUserStories auth c)
  with assms show ?thesis by (simp add: nd_protected get_user_stories_def split: option.splits)
next
  case (CreateStory auth t c cat f1 f2 f3)
  with assms show ?thesis by (simp add: nd_protected nd_create_story)
next
  case (UpdateStory auth i t c cat f1 f2 f3)
  with assms show ?thesis by (simp add: nd_protected nd_update_story)
next
  case (DeleteStory auth i)
  with assms show ?thesis by (simp add: nd_protected nd_delete_story)
next
  case (LikeStory auth i)
  with assms show ?thesis by (simp add: nd_protected nd_like_story)
next
  case (BookmarkStory auth i)
  with assms show ?thesis by (simp add: nd_protected nd_bookmark_story)
next
  case (AddComment auth i c)
  with assms show ?thesis by (simp add: nd_protected nd_add_comment)
next
  case (DeleteComment auth i j)
  with assms show ?thesis by (simp add: nd_protected nd_delete_comment)
next
  case (GetUser c)
  with assms show ?thesis by simp
next
  case (GetBookmarked auth)
  with assms show ?thesis by (simp add: nd_protected get_bookmarked_def)
next
  case (UpdateProfile auth i n b f)
  with assms show ?thesis by (simp add: nd_protected nd_update_profile)
next
  case (DeleteProfile auth c)
  with assms show ?thesis by (simp add: nd_protected nd_delete_profile)
qed

text \<open>
  Every database the server reaches from empty collections, by whatever requests, has
  the invariant.
\<close>

lemma nd_reachable:
  "no_duplicates d \<Longrightarrow> no_duplicates (fold (\<lambda>(e, req) d. fst (handle e d req)) reqs d)"
  by (induction reqs arbitrary: d) (auto simp: nd_handle)

lemma nd_from_empty:
  "no_duplicates (fold (\<lambda>(e, req) d. fst (handle e d req)) reqs \<lparr>users = [], stories = []\<rparr>)"
  by (rule nd_reachable) (simp add: no_duplicates_def)

text \<open>
  C2. When no stored story has a duplicate in its \<^verbatim>\<open>likes\<close> or in its \<^verbatim>\<open>bookmarks\<close>,
  the same holds after any request to the server, whatever its outcome; in particular
  after a like or a bookmark request. The collections of a fresh database satisfy it.
\<close>

theorem requests_keep_likes_duplicate_free:
  "no_duplicates d \<Longrightarrow> no_duplicates (fst (handle e d req))"
  by (rule nd_handle)

theorem requests_keep_likes_duplicate_free_witness:
  "no_duplicates ex_db
   \<and> no_duplicates (fst (handle ex_env ex_db (LikeStory (Some ''u2'') (Oid 7))))
   \<and> stories (fst (handle ex_env ex_db (LikeStory (Some ''u2'') (Oid 7))))
       = [ex_story\<lparr>likes := []\<rparr>, ex_story2]
   \<and> no_duplicates (fst (handle ex_env ex_db (BookmarkStory (Some ''u2'') (Oid 7))))
   \<and> stories (fst (handle ex_env ex_db (BookmarkStory (Some ''u2'') (Oid 7))))
       = [ex_story\<lparr>bookmarks := [''u1'', ''u2'']\<rparr>, ex_story2]
   \<and> no_duplicates (fst (handle ex_env ex_db (DeleteProfile (Some ''u2'') ''u2'')))"
proof -
  have inv: "no_duplicates ex_db"
    by (simp add: no_duplicates_def ex_defs)
  have l: "stories (fst (handle ex_env ex_db (LikeStory (Some ''u2'') (Oid 7))))
       = [ex_story\<lparr>likes := []\<rparr>, ex_story2]"
    by (simp add: ex_defs model_defs like_story_def toggle_id_eq)
  have b: "stories (fst (handle ex_env ex_db (BookmarkStory (Some ''u2'') (Oid 7))))
       = [ex_story\<lparr>bookmarks := [''u1'', ''u2'']\<rparr>, ex_story2]"
    by (simp add: ex_defs model_defs bookmark_story_def toggle_id_eq)
  from inv l b
    requests_keep_likes_duplicate_free [OF inv, of ex_env "LikeStory (Some ''u2'') (Oid 7)"]
    requests_keep_likes_duplicate_free [OF inv, of ex_env "BookmarkStory (Some ''u2'') (Oid 7)"]
    requests_keep_likes_duplicate_free [OF inv, of ex_env "DeleteProfile (Some ''u2'') ''u2''"]
  show ?thesis by blast
qed

subsection \<open>Only the author updates or deletes a story\<close>

lemma protected_passed: "syncUser e d auth = (d1, Inr u) \<Longrightarrow> protected e d auth h = h d1 u"
  by (frule syncUser_passed_truthy) (simp add: protected_def ClerkExpressRequireAuth_def)

lemma update_story_forbidden:
  "findById (stories d) i = Some s \<Longrightarrow> authorId s \<noteq> uid u \<Longrightarrow>
     update_story e (Oid i) t c cat f1 f2 f3 d u
       = (d, Failure 403 ''Unauthorized: You can only edit your own stories.'')"
  by (simp add: update_story_def)

lemma update_story_missing:
  "findById (stories d) i = None \<Longrightarrow>
     update_story e (Oid i) t c cat f1 f2 f3 d u = (d, Failure 404 ''Story not found'')"
  by (simp add: update_story_def)

lemma update_story_malformed:
  "update_story e (NotAnObjectId x) t c cat f1 f2 f3 d u
     = (d, Failure 500 (''Failed to update story: '' @ cast_error x))"
  by (simp add: update_story_def)

lemma update_story_ok_author:
  "update_story e rid t c cat f1 f2 f3 d u = (d', r) \<Longrightarrow> status r = 200 \<Longrightarrow>
     \<exists>i s. rid = Oid i \<and> findById (stories d) i = Some s \<and> authorId s = uid u"
  by (auto simp: update_story_def split: route_id.splits option.splits if_splits)

lemma delete_story_forbidden:
  "findById (stories d) i = Some s \<Longrightarrow> authorId s \<noteq> uid u \<Longrightarrow>
     delete_story (Oid i) d u
       = (d, Failure 403 ''Unauthorized: You can only delete your own stories.'')"
  by (simp add: delete_story_def)

lemma delete_story_missing:
  "findById (stories d) i = None \<Longrightarrow>
     delete_story (Oid i) d u = (d, Failure 404 ''Story not found'')"
  by (simp add: delete_story_def)

lemma delete_story_malformed:
  "delete_story (NotAnObjectId x) d u
     = (d, Failure 500 (''Failed to delete story: '' @ cast_error x))"
  by (simp add: delete_story_def)

lemma delete_story_ok_author:
  "delete_story rid d u = (d', r) \<Longrightarrow> status r = 204 \<Longrightarrow>
     \<exists>i s. rid = Oid i \<and> findById (stories d) i = Some s \<and> authorId s = uid u"
  by (auto simp: delete_story_def split: route_id.splits option.splits if_splits)

text \<open>
  The claim C7 as written fails on an id that is not a well-formed \<^verbatim>\<open>ObjectId\<close>: no
  story has the id \<^verbatim>\<open>nope\<close>, and \<^verbatim>\<open>PUT /api/stories/nope\<close> and
  \<^verbatim>\<open>DELETE /api/stories/nope\<close> of a caller who passes \<^verbatim>\<open>syncUser\<close> answer 500, not 404:
  \<^verbatim>\<open>Story.findById\<close> throws inside the \<^verbatim>\<open>try\<close> and the \<^verbatim>\<open>catch\<close> answers.
\<close>

theorem malformed_story_id_answers_500:
  "status (snd (handle ex_env ex_db
       (UpdateStory (Some ''u1'') (NotAnObjectId ''nope'') (Some ''New'') None None None None None)))
     = 500
   \<and> status (snd (handle ex_env ex_db
       (UpdateStory (Some ''u1'') (NotAnObjectId ''nope'') (Some ''New'') None None None None None)))
     \<noteq> 404
   \<and> status (snd (handle ex_env ex_db (DeleteStory (Some ''u1'') (NotAnObjectId ''nope'')))) = 500
   \<and> status (snd (handle ex_env ex_db (DeleteStory (Some ''u1'') (NotAnObjectId ''nope'')))) \<noteq> 404"
  by (simp add: ex_defs model_defs update_story_def delete_story_def)

text \<open>
  C7, as amended. An update request answers 200, and a delete request 204, only when the
  id of the route is the id of a stored story whose \<^verbatim>\<open>authorId\<close> is the \<^verbatim>\<open>_id\<close> of the
  caller's local user. For a caller who passed \<^verbatim>\<open>syncUser\<close> with another local user,
  both requests answer 403 and leave the story collection as it was. When the id is a
  well-formed \<^verbatim>\<open>ObjectId\<close> that no story has, both answer 404; when the id is not a
  well-formed \<^verbatim>\<open>ObjectId\<close>, both answer 500; the stories are as they were in both cases.
\<close>

theorem only_author_updates_or_deletes:
  "(handle e d (UpdateStory auth rid t c cat f1 f2 f3) = (d', r) \<and> status r = 200 \<longrightarrow>
      (\<exists>d1 u i s. syncUser e d auth = (d1, Inr u) \<and> rid = Oid i \<and>
                   findById (stories d) i = Some s \<and> authorId s = uid u))
   \<and> (handle e d (DeleteStory auth rid) = (d', r) \<and> status r = 204 \<longrightarrow>
      (\<exists>d1 u i s. syncUser e d auth = (d1, Inr u) \<and> rid = Oid i \<and>
                   findById (stories d) i = Some s \<and> authorId s = uid u))
   \<and> (syncUser e d auth = (d1, Inr u) \<and> findById (stories d) i = Some s \<and> authorId s \<noteq> uid u \<longrightarrow>
        status (snd (handle e d (UpdateStory auth (Oid i) t c cat f1 f2 f3))) = 403 \<and>
        stories (fst (handle e d (UpdateStory auth (Oid i) t c cat f1 f2 f3))) = stories d \<and>
        status (snd (handle e d (DeleteStory auth (Oid i)))) = 403 \<and>
        stories (fst (handle e d (DeleteStory auth (Oid i)))) = stories d)
   \<and> (syncUser e d auth = (d1, Inr u) \<and> findById (stories d) i = None \<longrightarrow>
        status (snd (handle e d (UpdateStory auth (Oid i) t c cat f1 f2 f3))) = 404 \<and>
        stories (fst (handle e d (UpdateStory auth (Oid i) t c cat f1 f2 f3))) = stories d \<and>
        status (snd (handle e d (DeleteStory auth (Oid i)))) = 404 \<and>
        stories (fst (handle e d (DeleteStory auth (Oid i)))) = stories d)
   \<and> (syncUser e d auth = (d1, Inr u) \<longrightarrow>
        status (snd (handle e d (UpdateStory auth (NotAnObjectId x) t c cat f1 f2 f3))) = 500 \<and>
        stories (fst (handle e d (UpdateStory auth (NotAnObjectId x) t c cat f1 f2 f3))) = stories d \<and>
        status (snd (handle e d (DeleteStory auth (NotAnObjectId x)))) = 500 \<and>
        stories (fst (handle e d (DeleteStory auth (NotAnObjectId x)))) = stories d)"
proof (intro conjI impI)
  assume a: "handle e d (UpdateStory auth rid t c cat f1 f2 f3) = (d', r) \<and> status r = 200"
  then obtain d1 u where sy: "syncUser e d auth = (d1, Inr u)"
    and h: "update_story e rid t c cat f1 f2 f3 d1 u = (d', r)"
    using protected_ok [of e d auth "update_story e rid t c cat f1 f2 f3" d' r] by auto
  from update_story_ok_author [OF h] a obtain i s where
    "rid = Oid i" "findById (stories d1) i = Some s" "authorId s = uid u" by auto
  with syncUser_stories [OF sy] sy
  show "\<exists>d1 u i s. syncUser e d auth = (d1, Inr u) \<and> rid = Oid i \<and>
                   findById (stories d) i = Some s \<and> authorId s = uid u" by auto
next
  assume a: "handle e d (DeleteStory auth rid) = (d', r) \<and> status r = 204"
  then obtain d1 u where sy: "syncUser e d auth = (d1, Inr u)"
    and h: "delete_story rid d1 u = (d', r)"
    using protected_ok [of e d auth "delete_story rid" d' r] by auto
  from delete_story_ok_author [OF h] a obtain i s where
    "rid = Oid i" "findById (stories d1) i = Some s" "authorId s = uid u" by auto
  with syncUser_stories [OF sy] sy
  show "\<exists>d1 u i s. syncUser e d auth = (d1, Inr u) \<and> rid = Oid i \<and>
                   findById (stories d) i = Some s \<and> authorId s = uid u" by auto
next
  assume a: "syncUser e d auth = (d1, Inr u) \<and> findById (stories d) i = Some s \<and> authorId s \<noteq> uid u"
  then have sy: "syncUser e d auth = (d1, Inr u)" by simp
  from a syncUser_stories [OF sy] have f: "findById (stories d1) i = Some s" by simp
  from a have na: "authorId s \<noteq> uid u" by simp
  note st = syncUser_stories [OF sy]
  show "status (snd (handle e d (UpdateStory auth (Oid i) t c cat f1 f2 f3))) = 403"
    by (simp add: protected_passed [OF sy] update_story_forbidden [OF f na])
  show "stories (fst (handle e d (UpdateStory auth (Oid i) t c cat f1 f2 f3))) = stories d"
    by (simp add: protected_passed [OF sy] update_story_forbidden [OF f na] st)
  show "status (snd (handle e d (DeleteStory auth (Oid i)))) = 403"
    by (simp add: protected_passed [OF sy] delete_story_forbidden [OF f na])
  show "stories (fst (handle e d (DeleteStory auth (Oid i)))) = stories d"
    by (simp add: protected_passed [OF sy] delete_story_forbidden [OF f na] st)
next
  assume a: "syncUser e d auth = (d1, Inr u) \<and> findById (stories d) i = None"
  then have sy: "syncUser e d auth = (d1, Inr u)" by simp
  from a syncUser_stories [OF sy] have f: "findById (stories d1) i = None" by simp
  note st = syncUser_stories [OF sy]
  show "status (snd (handle e d (UpdateStory auth (Oid i) t c cat f1 f2 f3))) = 404"
    by (simp add: protected_passed [OF sy] update_story_missing [OF f])
  show "stories (fst (handle e d (UpdateStory auth (Oid i) t c cat f1 f2 f3))) = stories d"
    by (simp add: protected_passed [OF sy] update_story_missing [OF f] st)
  show "status (snd (handle e d (DeleteStory auth (Oid i)))) = 404"
    by (simp add: protected_passed [OF sy] delete_story_missing [OF f])
  show "stories (fst (handle e d (DeleteStory auth (Oid i)))) = stories d"
    by (simp add: protected_passed [OF sy] delete_story_missing [OF f] st)
next
  assume sy: "syncUser e d auth = (d1, Inr u)"
  note st = syncUser_stories [OF sy]
  show "status (snd (handle e d (UpdateStory auth (NotAnObjectId x) t c cat f1 f2 f3))) = 500"
    by (simp add: protected_passed [OF sy] update_story_malformed)
  show "stories (fst (handle e d (UpdateStory auth (NotAnObjectId x) t c cat f1 f2 f3))) = stories d"
    by (simp add: protected_passed [OF sy] update_story_malformed st)
  show "status (snd (handle e d (DeleteStory auth (NotAnObjectId x)))) = 500"
    by (simp add: protected_passed [OF sy] delete_story_malformed)
  show "stories (fst (handle e d (DeleteStory auth (NotAnObjectId x)))) = stories d"
    by (simp add: protected_passed [OF sy] delete_story_malformed st)
qed

theorem only_author_updates_or_deletes_witness:
  "status (snd (handle ex_env ex_db
       (UpdateStory (Some ''u1'') (Oid 7) (Some ''New'') None None None None None))) = 200
   \<and> (\<exists>d1 u s. syncUser ex_env ex_db (Some ''u1'') = (d1, Inr u) \<and>
         findById (stories ex_db) 7 = Some s \<and> authorId s = uid u)
   \<and> status (snd (handle ex_env ex_db (DeleteStory (Some ''u1'') (Oid 7)))) = 204
   \<and> status (snd (handle ex_env ex_db
       (UpdateStory (Some ''u2'') (Oid 7) (Some ''New'') None None None None None))) = 403
   \<and> stories (fst (handle ex_env ex_db
       (UpdateStory (Some ''u2'') (Oid 7) (Some ''New'') None None None None None))) = stories ex_db
   \<and> status (snd (handle ex_env ex_db (DeleteStory (Some ''u2'') (Oid 7)))) = 403
   \<and> stories (fst (handle ex_env ex_db (DeleteStory (Some ''u2'') (Oid 7)))) = stories ex_db
   \<and> status (snd (handle ex_env ex_db
       (UpdateStory (Some ''u2'') (Oid 9) (Some ''New'') None None None None None))) = 404
   \<and> status (snd (handle ex_env ex_db (DeleteStory (Some ''u2'') (Oid 9)))) = 404
   \<and> status (snd (handle ex_env ex_db (DeleteStory (Some ''u2'') (NotAnObjectId ''nope'')))) = 500
   \<and> stories (fst (handle ex_env ex_db (DeleteStory (Some ''u2'') (NotAnObjectId ''nope''))))
       = stories ex_db"
proof -
  let ?U1 = "UpdateStory (Some ''u1'') (Oid 7) (Some ''New'') None None None None None"
  have ok: "status (snd (handle ex_env ex_db ?U1)) = 200"
    by (simp add: ex_defs model_defs update_story_def upload_opt_def)
  have del: "status (snd (handle ex_env ex_db (DeleteStory (Some ''u1'') (Oid 7)))) = 204"
    by (simp add: ex_defs model_defs delete_story_def)
  have sy: "syncUser ex_env ex_db (Some ''u2'')
      = (ex_db\<lparr>users := [ex_alice, ex_bob\<lparr>u_updatedAt := 5000\<rparr>]\<rparr>,
         Inr (ex_bob\<lparr>u_updatedAt := 5000\<rparr>))"
    by (simp add: ex_defs model_defs)
  have f7: "findById (stories ex_db) 7 = Some ex_story"
    by (simp add: ex_defs findById_def)
  have f9: "findById (stories ex_db) 9 = None"
    by (simp add: ex_defs findById_def)
  have na: "authorId ex_story \<noteq> uid (ex_bob\<lparr>u_updatedAt := 5000\<rparr>)"
    by (simp add: ex_defs)
  note t = only_author_updates_or_deletes [where e = ex_env and d = ex_db
      and t = "Some ''New''" and c = None and cat = None
      and ?f1.0 = None and ?f2.0 = None and ?f3.0 = None]
  from t [where auth = "Some ''u1''" and rid = "Oid 7" and d' = "fst (handle ex_env ex_db ?U1)"
      and r = "snd (handle ex_env ex_db ?U1)"] ok
  have own: "\<exists>d1 u s. syncUser ex_env ex_db (Some ''u1'') = (d1, Inr u) \<and>
         findById (stories ex_db) 7 = Some s \<and> authorId s = uid u"
    by simp
  from t [where auth = "Some ''u2''" and i = 7 and s = ex_story
      and u = "ex_bob\<lparr>u_updatedAt := 5000\<rparr>"
      and ?d1.0 = "ex_db\<lparr>users := [ex_alice, ex_bob\<lparr>u_updatedAt := 5000\<rparr>]\<rparr>"] sy f7 na
  have forb: "status (snd (handle ex_env ex_db
       (UpdateStory (Some ''u2'') (Oid 7) (Some ''New'') None None None None None))) = 403
   \<and> stories (fst (handle ex_env ex_db
       (UpdateStory (Some ''u2'') (Oid 7) (Some ''New'') None None None None None))) = stories ex_db
   \<and> status (snd (handle ex_env ex_db (DeleteStory (Some ''u2'') (Oid 7)))) = 403
   \<and> stories (fst (handle ex_env ex_db (DeleteStory (Some ''u2'') (Oid 7)))) = stories ex_db"
    by blast
  from t [where auth = "Some ''u2''" and i = 9
      and u = "ex_bob\<lparr>u_updatedAt := 5000\<rparr>"
      and ?d1.0 = "ex_db\<lparr>users := [ex_alice, ex_bob\<lparr>u_updatedAt := 5000\<rparr>]\<rparr>"] sy f9
  have miss: "status (snd (handle ex_env ex_db
       (UpdateStory (Some ''u2'') (Oid 9) (Some ''New'') None None None None None))) = 404
   \<and> status (snd (handle ex_env ex_db (DeleteStory (Some ''u2'') (Oid 9)))) = 404"
    by blast
  from t [where auth = "Some ''u2''" and x = "''nope''"
      and u = "ex_bob\<lparr>u_updatedAt := 5000\<rparr>"
      and ?d1.0 = "ex_db\<lparr>users := [ex_alice, ex_bob\<lparr>u_updatedAt := 5000\<rparr>]\<rparr>"] sy
  have mal: "status (snd (handle ex_env ex_db (DeleteStory (Some ''u2'') (NotAnObjectId ''nope'')))) = 500
   \<and> stories (fst (handle ex_env ex_db (DeleteStory (Some ''u2'') (NotAnObjectId ''nope''))))
       = stories ex_db"
    by blast
  from ok own del forb miss mal show ?thesis by blast
qed

subsection \<open>Deleting a comment\<close>

lemma filter_cid_remove1:
  "distinct (map cid xs) \<Longrightarrow> find (\<lambda>c. cid c = j) xs = Some cm \<Longrightarrow>
     filter (\<lambda>c. cid c \<noteq> j) xs = remove1 cm xs"
proof (induction xs)
  case Nil
  then show ?case by simp
next
  case (Cons x xs)
  show ?case
  proof (cases "cid x = j")
    case True
    with Cons.prems have "x = cm" by simp
    moreover from True Cons.prems(1) have "\<forall>c\<in>set xs. cid c \<noteq> j"
      by (metis distinct.simps(2) image_eqI list.simps(9) set_map)
    then have "filter (\<lambda>c. cid c \<noteq> j) xs = xs" by (simp add: filter_id_conv)
    ultimately show ?thesis using True by simp
  next
    case False
    with Cons.prems have "find (\<lambda>c. cid c = j) xs = Some cm" "distinct (map cid xs)" by simp_all
    with Cons.IH have "filter (\<lambda>c. cid c \<noteq> j) xs = remove1 cm xs" by simp
    moreover from False \<open>find (\<lambda>c. cid c = j) xs = Some cm\<close> have "x \<noteq> cm"
      by (auto dest: find_Some_P)
    ultimately show ?thesis using False by simp
  qed
qed

lemma comments_id_Some:
  "comments_id cs rj = Some cm \<Longrightarrow>
     rj = Oid (cid cm) \<and> find (\<lambda>c. cid c = cid cm) cs = Some cm"
  by (cases rj) (auto simp: comments_id_def dest: find_Some_P)

lemma delete_comment_no_story:
  "findById (stories d) i = None \<Longrightarrow>
     delete_comment (Oid i) rj d u = (d, Failure 404 ''Story not found.'')"
  by (simp add: delete_comment_def)

lemma delete_comment_malformed:
  "delete_comment (NotAnObjectId x) rj d u
     = (d, Failure 500 (''Failed to delete comment: '' @ cast_error x))"
  by (simp add: delete_comment_def)

lemma delete_comment_no_comment:
  "findById (stories d) i = Some s \<Longrightarrow> comments_id (comments s) rj = None \<Longrightarrow>
     delete_comment (Oid i) rj d u = (d, Failure 404 ''Comment not found.'')"
  by (simp add: delete_comment_def)

lemma delete_comment_forbidden:
  "findById (stories d) i = Some s \<Longrightarrow> comments_id (comments s) rj = Some cm \<Longrightarrow>
     userId cm \<noteq> uid u \<Longrightarrow>
     delete_comment (Oid i) rj d u
       = (d, Failure 403 ''Unauthorized: You can only delete your own comments.'')"
  by (simp add: delete_comment_def)

lemma delete_comment_done:
  assumes "findById (stories d) i = Some s" and "comments_id (comments s) rj = Some cm"
    and "userId cm = uid u"
  shows "delete_comment (Oid i) rj d u
       = (d\<lparr>stories := save_story (s\<lparr>comments := filter (\<lambda>c. cid c \<noteq> cid cm) (comments s)\<rparr>)
                          (stories d)\<rparr>,
          StoryJson 200 (format_story (users d)
             (s\<lparr>comments := filter (\<lambda>c. cid c \<noteq> cid cm) (comments s)\<rparr>)))"
proof -
  from comments_id_Some [OF assms(2)] have rj: "rj = Oid (cid cm)" by simp
  then have "comments_pull (comments s) rj = filter (\<lambda>c. cid c \<noteq> cid cm) (comments s)"
    by (simp add: comments_pull_def)
  with assms findById_sid [OF assms(1)] show ?thesis
    by (simp add: delete_comment_def Let_def respond_saved)
qed

text \<open>
  The claim C8 as written fails on a story id that is not a well-formed \<^verbatim>\<open>ObjectId\<close>:
  the id \<^verbatim>\<open>nope\<close> resolves to no story, and the request of a caller who passes
  \<^verbatim>\<open>syncUser\<close> answers 500, not 404.
\<close>

theorem malformed_story_id_delete_comment_answers_500:
  "status (snd (handle ex_env ex_db
       (DeleteComment (Some ''u2'') (NotAnObjectId ''nope'') (Oid 30)))) = 500
   \<and> status (snd (handle ex_env ex_db
       (DeleteComment (Some ''u2'') (NotAnObjectId ''nope'') (Oid 30)))) \<noteq> 404"
  by (simp add: ex_defs model_defs delete_comment_def)

text \<open>
  C8, as amended. For a caller who passed \<^verbatim>\<open>syncUser\<close> with the local user \<open>u\<close>: the
  request answers 404 when the story id is a well-formed \<^verbatim>\<open>ObjectId\<close> that no story has,
  and 500 when the story id is not a well-formed \<^verbatim>\<open>ObjectId\<close>; it answers 404 when the
  story has no comment of the comment id, as is the case of every comment id that is not
  well formed; it answers 403 when the comment's \<^verbatim>\<open>userId\<close> is not the \<^verbatim>\<open>_id\<close> of
  \<open>u\<close> (the Clerk ids play no part); in these four cases the stories are as they were.
  Otherwise it answers 200 and the stored story is the one before without the comments
  of that id, every other story being the same; as the comments of a story have distinct
  ids, that is the comment list with exactly this comment removed.
\<close>

theorem delete_comment_outcomes:
  assumes sy: "syncUser e d auth = (d1, Inr u)"
  shows "(findById (stories d) i = None \<longrightarrow>
            status (snd (handle e d (DeleteComment auth (Oid i) rj))) = 404 \<and>
            stories (fst (handle e d (DeleteComment auth (Oid i) rj))) = stories d)
       \<and> status (snd (handle e d (DeleteComment auth (NotAnObjectId x) rj))) = 500
       \<and> stories (fst (handle e d (DeleteComment auth (NotAnObjectId x) rj))) = stories d
       \<and> (findById (stories d) i = Some s \<and> comments_id (comments s) rj = None \<longrightarrow>
            status (snd (handle e d (DeleteComment auth (Oid i) rj))) = 404 \<and>
            stories (fst (handle e d (DeleteComment auth (Oid i) rj))) = stories d)
       \<and> comments_id (comments s) (NotAnObjectId y) = None
       \<and> comments_id (comments s) (Oid j) = find (\<lambda>c. cid c = j) (comments s)
       \<and> (findById (stories d) i = Some s \<and> comments_id (comments s) rj = Some cm \<and>
          userId cm \<noteq> uid u \<longrightarrow>
            status (snd (handle e d (DeleteComment auth (Oid i) rj))) = 403 \<and>
            stories (fst (handle e d (DeleteComment auth (Oid i) rj))) = stories d)
       \<and> (findById (stories d) i = Some s \<and> comments_id (comments s) rj = Some cm \<and>
          userId cm = uid u \<longrightarrow>
            status (snd (handle e d (DeleteComment auth (Oid i) rj))) = 200 \<and>
            rj = Oid (cid cm) \<and>
            (\<exists>pre post. stories d = pre @ s # post \<and>
               stories (fst (handle e d (DeleteComment auth (Oid i) rj)))
                 = pre @ s\<lparr>comments := filter (\<lambda>c. cid c \<noteq> cid cm) (comments s)\<rparr> # post) \<and>
            (distinct (map cid (comments s)) \<longrightarrow>
               filter (\<lambda>c. cid c \<noteq> cid cm) (comments s) = remove1 cm (comments s)))"
proof -
  note st = syncUser_stories [OF sy]
  note pp = protected_passed [OF sy]
  show ?thesis
  proof (intro conjI impI)
    assume "findById (stories d) i = None"
    with st have f: "findById (stories d1) i = None" by simp
    show "status (snd (handle e d (DeleteComment auth (Oid i) rj))) = 404"
      by (simp add: pp delete_comment_no_story [OF f])
    show "stories (fst (handle e d (DeleteComment auth (Oid i) rj))) = stories d"
      by (simp add: pp delete_comment_no_story [OF f] st)
  next
    show "status (snd (handle e d (DeleteComment auth (NotAnObjectId x) rj))) = 500"
      by (simp add: pp delete_comment_malformed)
    show "stories (fst (handle e d (DeleteComment auth (NotAnObjectId x) rj))) = stories d"
      by (simp add: pp delete_comment_malformed st)
  next
    assume a: "findById (stories d) i = Some s \<and> comments_id (comments s) rj = None"
    with st have f: "findById (stories d1) i = Some s" by simp
    from a have n: "comments_id (comments s) rj = None" by simp
    show "status (snd (handle e d (DeleteComment auth (Oid i) rj))) = 404"
      by (simp add: pp delete_comment_no_comment [OF f n])
    show "stories (fst (handle e d (DeleteComment auth (Oid i) rj))) = stories d"
      by (simp add: pp delete_comment_no_comment [OF f n] st)
  next
    show "comments_id (comments s) (NotAnObjectId y) = None"
      by (simp add: comments_id_def)
    show "comments_id (comments s) (Oid j) = find (\<lambda>c. cid c = j) (comments s)"
      by (simp add: comments_id_def)
  next
    assume a: "findById (stories d) i = Some s \<and> comments_id (comments s) rj = Some cm \<and>
          userId cm \<noteq> uid u"
    with st have f: "findById (stories d1) i = Some s" by simp
    from a have c: "comments_id (comments s) rj = Some cm" and na: "userId cm \<noteq> uid u"
      by simp_all
    show "status (snd (handle e d (DeleteComment auth (Oid i) rj))) = 403"
      by (simp add: pp delete_comment_forbidden [OF f c na])
    show "stories (fst (handle e d (DeleteComment auth (Oid i) rj))) = stories d"
      by (simp add: pp delete_comment_forbidden [OF f c na] st)
  next
    assume a: "findById (stories d) i = Some s \<and> comments_id (comments s) rj = Some cm \<and>
          userId cm = uid u"
    with st have f: "findById (stories d1) i = Some s" by simp
    from a have c: "comments_id (comments s) rj = Some cm" and au: "userId cm = uid u"
      by simp_all
    let ?s' = "s\<lparr>comments := filter (\<lambda>c. cid c \<noteq> cid cm) (comments s)\<rparr>"
    show "status (snd (handle e d (DeleteComment auth (Oid i) rj))) = 200"
      by (simp add: pp delete_comment_done [OF f c au])
    from comments_id_Some [OF c] show "rj = Oid (cid cm)" by simp
    from findById_sid [OF f] have "sid ?s' = i" by simp
    from save_story_split [OF f this] obtain pre post where
      "stories d1 = pre @ s # post" "save_story ?s' (stories d1) = pre @ ?s' # post" by blast
    with st have "stories d = pre @ s # post \<and>
        stories (fst (handle e d (DeleteComment auth (Oid i) rj))) = pre @ ?s' # post"
      by (simp add: pp delete_comment_done [OF f c au])
    then show "\<exists>pre post. stories d = pre @ s # post \<and>
               stories (fst (handle e d (DeleteComment auth (Oid i) rj))) = pre @ ?s' # post"
      by blast
  next
    assume a: "findById (stories d) i = Some s \<and> comments_id (comments s) rj = Some cm \<and>
          userId cm = uid u" and dist: "distinct (map cid (comments s))"
    from a comments_id_Some [of "comments s" rj cm]
    have "find (\<lambda>c. cid c = cid cm) (comments s) = Some cm" by simp
    with dist show "filter (\<lambda>c. cid c \<noteq> cid cm) (comments s) = remove1 cm (comments s)"
      by (simp add: filter_cid_remove1)
  qed
qed

theorem delete_comment_outcomes_witness:
  "status (snd (handle ex_env ex_db (DeleteComment (Some ''u2'') (Oid 9) (Oid 30)))) = 404
   \<and> stories (fst (handle ex_env ex_db (DeleteComment (Some ''u2'') (Oid 9) (Oid 30)))) = stories ex_db
   \<and> status (snd (handle ex_env ex_db (DeleteComment (Some ''u2'') (NotAnObjectId ''nope'') (Oid 30)))) = 500
   \<and> stories (fst (handle ex_env ex_db (DeleteComment (Some ''u2'') (NotAnObjectId ''nope'') (Oid 30))))
       = stories ex_db
   \<and> status (snd (handle ex_env ex_db (DeleteComment (Some ''u2'') (Oid 7) (Oid 99)))) = 404
   \<and> stories (fst (handle ex_env ex_db (DeleteComment (Some ''u2'') (Oid 7) (Oid 99)))) = stories ex_db
   \<and> status (snd (handle ex_env ex_db (DeleteComment (Some ''u2'') (Oid 7) (NotAnObjectId ''x'')))) = 404
   \<and> status (snd (handle ex_env ex_db (DeleteComment (Some ''u1'') (Oid 7) (Oid 30)))) = 403
   \<and> stories (fst (handle ex_env ex_db (DeleteComment (Some ''u1'') (Oid 7) (Oid 30)))) = stories ex_db
   \<and> status (snd (handle ex_env ex_db (DeleteComment (Some ''u2'') (Oid 7) (Oid 30)))) = 200
   \<and> stories (fst (handle ex_env ex_db (DeleteComment (Some ''u2'') (Oid 7) (Oid 30))))
       = [ex_story\<lparr>comments := []\<rparr>, ex_story2]
   \<and> filter (\<lambda>c. cid c \<noteq> 30) (comments ex_story) = remove1 (hd (comments ex_story)) (comments ex_story)"
proof -
  let ?bob = "ex_bob\<lparr>u_updatedAt := 5000\<rparr>" and ?alice = "ex_alice\<lparr>u_updatedAt := 5000\<rparr>"
  let ?cm = "\<lparr>cid = 30, userId = 2, c_username = ''bob'', c_content = ''nice'',
               c_createdAt = 1500\<rparr>"
  have syb: "syncUser ex_env ex_db (Some ''u2'') = (ex_db\<lparr>users := [ex_alice, ?bob]\<rparr>, Inr ?bob)"
    by (simp add: ex_defs model_defs)
  have sya: "syncUser ex_env ex_db (Some ''u1'') = (ex_db\<lparr>users := [?alice, ex_bob]\<rparr>, Inr ?alice)"
    by (simp add: ex_defs model_defs)
  have f7: "findById (stories ex_db) 7 = Some ex_story"
    by (simp add: ex_defs findById_def)
  have f9: "findById (stories ex_db) 9 = None"
    by (simp add: ex_defs findById_def)
  have c30: "comments_id (comments ex_story) (Oid 30) = Some ?cm"
    by (simp add: ex_defs comments_id_def)
  have c99: "comments_id (comments ex_story) (Oid 99) = None"
    by (simp add: ex_defs comments_id_def)
  have cx: "comments_id (comments ex_story) (NotAnObjectId ''x'') = None"
    by (simp add: comments_id_def)
  have own: "userId ?cm = uid ?bob" "userId ?cm \<noteq> uid ?alice"
    by (simp_all add: ex_defs)
  have dist: "distinct (map cid (comments ex_story))"
    by (simp add: ex_defs)
  have hd: "hd (comments ex_story) = ?cm"
    by (simp add: ex_defs)
  from delete_comment_outcomes [OF syb, where i = 9 and rj = "Oid 30" and x = "''nope''"] f9
  have a: "status (snd (handle ex_env ex_db (DeleteComment (Some ''u2'') (Oid 9) (Oid 30)))) = 404
     \<and> stories (fst (handle ex_env ex_db (DeleteComment (Some ''u2'') (Oid 9) (Oid 30)))) = stories ex_db
     \<and> status (snd (handle ex_env ex_db (DeleteComment (Some ''u2'') (NotAnObjectId ''nope'') (Oid 30)))) = 500
     \<and> stories (fst (handle ex_env ex_db (DeleteComment (Some ''u2'') (NotAnObjectId ''nope'') (Oid 30))))
         = stories ex_db"
    by blast
  from delete_comment_outcomes [OF syb, where i = 7 and rj = "Oid 99" and s = ex_story] f7 c99
  have b: "status (snd (handle ex_env ex_db (DeleteComment (Some ''u2'') (Oid 7) (Oid 99)))) = 404
     \<and> stories (fst (handle ex_env ex_db (DeleteComment (Some ''u2'') (Oid 7) (Oid 99)))) = stories ex_db"
    by blast
  from delete_comment_outcomes [OF syb, where i = 7 and rj = "NotAnObjectId ''x''" and s = ex_story]
    f7 cx
  have b': "status (snd (handle ex_env ex_db (DeleteComment (Some ''u2'') (Oid 7) (NotAnObjectId ''x'')))) = 404"
    by blast
  from delete_comment_outcomes [OF sya, where i = 7 and rj = "Oid 30" and s = ex_story and cm = ?cm]
    f7 c30 own(2)
  have c: "status (snd (handle ex_env ex_db (DeleteComment (Some ''u1'') (Oid 7) (Oid 30)))) = 403
     \<and> stories (fst (handle ex_env ex_db (DeleteComment (Some ''u1'') (Oid 7) (Oid 30)))) = stories ex_db"
    by blast
  from delete_comment_outcomes [OF syb, where i = 7 and rj = "Oid 30" and s = ex_story and cm = ?cm]
    f7 c30 own(1) dist
  have d: "status (snd (handle ex_env ex_db (DeleteComment (Some ''u2'') (Oid 7) (Oid 30)))) = 200
     \<and> filter (\<lambda>c. cid c \<noteq> cid ?cm) (comments ex_story) = remove1 ?cm (comments ex_story)"
    by blast
  have v: "stories (fst (handle ex_env ex_db (DeleteComment (Some ''u2'') (Oid 7) (Oid 30))))
       = [ex_story\<lparr>comments := []\<rparr>, ex_story2]"
    by (simp add: ex_defs model_defs delete_comment_def comments_id_def comments_pull_def)
  from a b b' c d v hd show ?thesis by simp
qed

subsection \<open>Deleting a profile\<close>

lemma map_update_first_same:
  "f y = k \<Longrightarrow> map f (update_first (\<lambda>x. f x = k) (\<lambda>_. y) xs) = map f xs"
  by (induction xs) auto

lemma map_update_first_other:
  "distinct (map f xs) \<Longrightarrow> x0 \<in> set xs \<Longrightarrow> f x0 = k \<Longrightarrow> g y = g x0 \<Longrightarrow>
     map g (update_first (\<lambda>x. f x = k) (\<lambda>_. y) xs) = map g xs"
proof (induction xs)
  case Nil
  then show ?case by simp
next
  case (Cons a xs)
  show ?case
  proof (cases "f a = k")
    case True
    have "a = x0"
    proof (rule ccontr)
      assume "a \<noteq> x0"
      with Cons.prems(2) have "x0 \<in> set xs" by simp
      then have "f x0 \<in> f ` set xs" by (rule imageI)
      with Cons.prems(1,3) True show False by simp
    qed
    with True Cons.prems(4) show ?thesis by simp
  next
    case False
    with Cons.prems have "x0 \<in> set xs" "distinct (map f xs)" by auto
    from Cons.IH [OF this(2) this(1) Cons.prems(3,4)] False show ?thesis by simp
  qed
qed

lemma set_update_first: "find P xs = Some x \<Longrightarrow> y \<in> set (update_first P (\<lambda>_. y) xs)"
  by (induction xs) (auto split: if_splits)

lemma find_distinct_key:
  "distinct (map f xs) \<Longrightarrow> x \<in> set xs \<Longrightarrow> find (\<lambda>y. f y = f x) xs = Some x"
proof (induction xs)
  case Nil
  then show ?case by simp
next
  case (Cons a xs)
  show ?case
  proof (cases "a = x")
    case True
    then show ?thesis by simp
  next
    case False
    with Cons.prems have mem: "x \<in> set xs" by simp
    then have "f x \<in> f ` set xs" by (rule imageI)
    with Cons.prems(1) have "f a \<noteq> f x" by auto
    with Cons.IH mem Cons.prems(1) show ?thesis by simp
  qed
qed

lemma find_key_None_notin: "find (\<lambda>y. f y = k) xs = None \<Longrightarrow> k \<notin> f ` set xs"
  by (induction xs) (auto split: if_splits)

lemma findUser_Some: "findUser us c = Some u \<Longrightarrow> clerkId u = c \<and> u \<in> set us"
  unfolding findUser_def by (drule find_Some_P) simp

lemma users_ok_syncUser:
  assumes ok: "users_ok d" and sy: "syncUser e d auth = (d1, x)"
  shows "users_ok d1"
proof (cases "d1 = d")
  case True
  with ok show ?thesis by simp
next
  case False
  with sy obtain a cu where tr: "truthy auth" and g: "getUser e a = Returned (Some cu)"
    and a: "a = js_to_string auth"
    by (auto simp: syncUser_def Let_def split: if_splits outcome.splits option.splits)
  show ?thesis
  proof (cases "findUser (users d) (cu_id cu)")
    case None
    with sy tr g a False have nr: "\<not> insert_refused (users d) (new_user e cu)"
      and d1: "d1 = d\<lparr>users := users d @ [new_user e cu]\<rparr>"
      by (auto simp: syncUser_def Let_def split: if_splits)
    from nr have "uid (new_user e cu) \<notin> uid ` set (users d)"
      "clerkId (new_user e cu) \<notin> clerkId ` set (users d)"
      by (auto simp: insert_refused_def unique_conflict_def list_ex_iff)
    with ok d1 show ?thesis by (simp add: users_ok_def)
  next
    case (Some u0)
    let ?u = "refreshed_user e cu u0"
    from Some sy tr g a False have d1: "d1 = d\<lparr>users := save_user ?u (users d)\<rparr>"
      by (auto simp: syncUser_def Let_def split: if_splits)
    from findUser_Some [OF Some] have mem: "u0 \<in> set (users d)" by simp
    have same: "uid ?u = uid u0" "clerkId ?u = clerkId u0" by (simp_all add: refreshed_user_def)
    from ok have du: "distinct (map uid (users d))" by (simp add: users_ok_def)
    have "map uid (save_user ?u (users d)) = map uid (users d)"
      unfolding save_user_def by (rule map_update_first_same) simp
    moreover have "map clerkId (save_user ?u (users d)) = map clerkId (users d)"
      unfolding save_user_def using du mem same
      by (intro map_update_first_other [where ?x0.0 = u0]) simp_all
    ultimately show ?thesis using ok d1 by (simp add: users_ok_def)
  qed
qed

lemma syncUser_user_stored:
  assumes sy: "syncUser e d auth = (d1, Inr u)"
  shows "u \<in> set (users d1)"
proof -
  from sy obtain cu where tr: "truthy auth" and g: "getUser e (js_to_string auth) = Returned (Some cu)"
    by (auto simp: syncUser_def Let_def split: if_splits outcome.splits option.splits)
  show ?thesis
  proof (cases "findUser (users d) (cu_id cu)")
    case None
    with sy tr g show ?thesis by (auto simp: syncUser_def Let_def split: if_splits)
  next
    case (Some u0)
    let ?u = "refreshed_user e cu u0"
    from Some sy tr g have d1: "d1 = d\<lparr>users := save_user ?u (users d)\<rparr>" and u: "u = ?u"
      by (auto simp: syncUser_def Let_def split: if_splits)
    from findUser_Some [OF Some] have mem: "u0 \<in> set (users d)" by simp
    have "find (\<lambda>x. uid x = uid ?u) (users d) \<noteq> None"
    proof
      assume "find (\<lambda>x. uid x = uid ?u) (users d) = None"
      from find_key_None_notin [OF this] mem show False by (auto simp: refreshed_user_def)
    qed
    then obtain z where "find (\<lambda>x. uid x = uid ?u) (users d) = Some z" by auto
    from set_update_first [OF this, of ?u] d1 u show ?thesis by (simp add: save_user_def)
  qed
qed

lemma delete_first_remove1: "find P xs = Some x \<Longrightarrow> delete_first P xs = remove1 x xs"
  by (induction xs) (auto split: if_splits dest: find_Some_P)

lemma distinct_key_remove1:
  "distinct (map f xs) \<Longrightarrow> x \<in> set xs \<Longrightarrow> f x \<notin> f ` set (remove1 x xs)"
proof (induction xs)
  case Nil
  then show ?case by simp
next
  case (Cons a xs)
  show ?case
  proof (cases "a = x")
    case True
    with Cons.prems(1) show ?thesis by simp
  next
    case False
    with Cons.prems have mem: "x \<in> set xs" by simp
    then have "f x \<in> f ` set xs" by (rule imageI)
    with Cons.prems(1) have "f a \<noteq> f x" by auto
    with Cons.IH [OF _ mem] Cons.prems(1) False show ?thesis by auto
  qed
qed

lemma find_None_iff_key: "k \<notin> f ` set xs \<Longrightarrow> find (\<lambda>y. f y = k) xs = None"
  by (induction xs) auto

lemma pull_user_clean:
  "c \<notin> set (likes (pull_user c i s))" "c \<notin> set (bookmarks (pull_user c i s))"
  "list_all (\<lambda>cm. userId cm \<noteq> i) (comments (pull_user c i s))"
  "authorId (pull_user c i s) = authorId s"
  by (auto simp: pull_user_def list_all_iff list_ex_iff)


lemma delete_profile_done:
  assumes "delete_profile e c d1 u = (d', r)" and "status r = 204"
  shows "clerkId u = c \<and> (\<exists>usr. findUser (users d1) c = Some usr \<and>
           users d' = delete_first (\<lambda>x. clerkId x = c) (users d1) \<and>
           stories d' = map (pull_user c (uid usr))
                            (filter (\<lambda>s. authorId s \<noteq> uid usr) (stories d1)))"
  using assms
  by (auto simp: delete_profile_def Let_def split: if_splits option.splits outcome.splits)

text \<open>
  C9. On a \<^verbatim>\<open>User\<close> collection that respects its unique indexes (\<^verbatim>\<open>_id\<close>,
  \<^verbatim>\<open>clerkId\<close>), a profile deletion that answers 204 was made by a caller whose local
  user \<open>u\<close> has the Clerk id of the request, and leaves a database in which no story has
  \<open>u\<close> as its author, no story has that Clerk id among its likes or its bookmarks, no
  story has a comment of \<open>u\<close>, and no user has the Clerk id or the \<^verbatim>\<open>_id\<close> of \<open>u\<close>. The
  stories left are those of the other authors, in their order.
\<close>

theorem delete_profile_cascades:
  assumes ok: "users_ok d"
    and run: "handle e d (DeleteProfile auth c) = (d', r)"
    and fin: "status r = 204"
  shows "\<exists>d1 u. syncUser e d auth = (d1, Inr u) \<and> clerkId u = c \<and>
           list_all (\<lambda>s. authorId s \<noteq> uid u \<and> c \<notin> set (likes s) \<and> c \<notin> set (bookmarks s) \<and>
                         list_all (\<lambda>cm. userId cm \<noteq> uid u) (comments s)) (stories d') \<and>
           findUser (users d') c = None \<and> findUserById (users d') (uid u) = None \<and>
           map sid (stories d') = map sid (filter (\<lambda>s. authorId s \<noteq> uid u) (stories d))"
proof -
  from run fin obtain d1 u where sy: "syncUser e d auth = (d1, Inr u)"
    and h: "delete_profile e c d1 u = (d', r)"
    using protected_ok [of e d auth "delete_profile e c" d' r] by auto
  from delete_profile_done [OF h fin] obtain usr where
    cu: "clerkId u = c" and fu: "findUser (users d1) c = Some usr"
    and us: "users d' = delete_first (\<lambda>x. clerkId x = c) (users d1)"
    and ss: "stories d' = map (pull_user c (uid usr))
                            (filter (\<lambda>s. authorId s \<noteq> uid usr) (stories d1))"
    by blast
  from users_ok_syncUser [OF ok sy] have dk: "distinct (map clerkId (users d1))"
    and di: "distinct (map uid (users d1))" by (simp_all add: users_ok_def)
  from syncUser_user_stored [OF sy] have mem: "u \<in> set (users d1)" .
  from find_distinct_key [OF dk mem] cu have fnd: "find (\<lambda>y. clerkId y = c) (users d1) = Some u"
    by simp
  with fu have usr: "usr = u" by (simp add: findUser_def)
  from us delete_first_remove1 [OF fnd] have us': "users d' = remove1 u (users d1)" by simp
  from distinct_key_remove1 [OF dk mem] cu us'
  have "c \<notin> clerkId ` set (users d')" by simp
  then have gone_c: "findUser (users d') c = None"
    unfolding findUser_def by (rule find_None_iff_key)
  from distinct_key_remove1 [OF di mem] us'
  have "uid u \<notin> uid ` set (users d')" by simp
  then have gone_i: "findUserById (users d') (uid u) = None"
    unfolding findUserById_def by (rule find_None_iff_key)
  from ss usr syncUser_stories [OF sy]
  have ss': "stories d' = map (pull_user c (uid u))
                            (filter (\<lambda>s. authorId s \<noteq> uid u) (stories d))" by simp
  have clean: "list_all (\<lambda>s. authorId s \<noteq> uid u \<and> c \<notin> set (likes s) \<and> c \<notin> set (bookmarks s) \<and>
                         list_all (\<lambda>cm. userId cm \<noteq> uid u) (comments s)) (stories d')"
    unfolding ss' by (simp add: list_all_iff pull_user_clean [unfolded list_all_iff])
  have ids: "map sid (stories d') = map sid (filter (\<lambda>s. authorId s \<noteq> uid u) (stories d))"
    unfolding ss' by (simp add: pull_user_def)
  from sy cu clean gone_c gone_i ids show ?thesis by blast
qed

theorem delete_profile_cascades_witness:
  "users_ok ex_db
   \<and> status (snd (handle ex_env ex_db (DeleteProfile (Some ''u2'') ''u2''))) = 204
   \<and> fst (handle ex_env ex_db (DeleteProfile (Some ''u2'') ''u2''))
       = \<lparr>users = [ex_alice],
          stories = [ex_story\<lparr>likes := [], comments := []\<rparr>]\<rparr>
   \<and> (\<exists>d1 u. syncUser ex_env ex_db (Some ''u2'') = (d1, Inr u) \<and> clerkId u = ''u2'' \<and>
        list_all (\<lambda>s. authorId s \<noteq> uid u \<and> ''u2'' \<notin> set (likes s) \<and> ''u2'' \<notin> set (bookmarks s) \<and>
                      list_all (\<lambda>cm. userId cm \<noteq> uid u) (comments s))
           (stories (fst (handle ex_env ex_db (DeleteProfile (Some ''u2'') ''u2'')))) \<and>
        findUser (users (fst (handle ex_env ex_db (DeleteProfile (Some ''u2'') ''u2'')))) ''u2'' = None)"
proof -
  let ?R = "DeleteProfile (Some ''u2'') ''u2''"
  have ok: "users_ok ex_db"
    by (simp add: users_ok_def ex_defs)
  have v: "handle ex_env ex_db ?R
      = (\<lparr>users = [ex_alice], stories = [ex_story\<lparr>likes := [], comments := []\<rparr>]\<rparr>, NoContent)"
    by (simp add: ex_defs model_defs delete_profile_def pull_user_def)
  then have fin: "status (snd (handle ex_env ex_db ?R)) = 204" by simp
  from delete_profile_cascades [where d = ex_db and e = ex_env and auth = "Some ''u2''"
      and c = "''u2''" and d' = "fst (handle ex_env ex_db ?R)"
      and r = "snd (handle ex_env ex_db ?R)"] ok fin
  have "\<exists>d1 u. syncUser ex_env ex_db (Some ''u2'') = (d1, Inr u) \<and> clerkId u = ''u2'' \<and>
        list_all (\<lambda>s. authorId s \<noteq> uid u \<and> ''u2'' \<notin> set (likes s) \<and> ''u2'' \<notin> set (bookmarks s) \<and>
                      list_all (\<lambda>cm. userId cm \<noteq> uid u) (comments s))
           (stories (fst (handle ex_env ex_db ?R))) \<and>
        findUser (users (fst (handle ex_env ex_db ?R))) ''u2'' = None"
    by simp blast
  with ok fin v show ?thesis by simp
qed

subsection \<open>Listing the stories\<close>

lemma newest_first_sort:
  "newest_first (map createdAt (sort_createdAt_desc ss))"
proof -
  have "sorted (map (\<lambda>s. - createdAt s) (sort_key (\<lambda>s. - createdAt s) ss))"
    by (rule sorted_sort_key)
  then have "sorted_wrt (\<lambda>a b. - createdAt a \<le> - createdAt b) (sort_key (\<lambda>s. - createdAt s) ss)"
    by (simp add: sorted_map)
  then show ?thesis
    by (simp add: newest_first_def sort_createdAt_desc_def sorted_wrt_map)
qed

lemma doc_format_story: "map doc (map (format_story us) ss) = ss"
  by (induction ss) (simp_all add: format_story_def)

lemma router_get_stories_stored_order: "router_get_stories collection = collection"
  by (simp add: router_get_stories_def)

text \<open>
  C3, as amended. \<^verbatim>\<open>GET /api/stories\<close> of the server answers with every stored story,
  each once, ordered by \<^verbatim>\<open>createdAt\<close> descending.
\<close>

theorem get_stories_newest_first:
  "\<exists>fs. get_stories d = StoriesJson fs \<and>
        newest_first (map (\<lambda>f. createdAt (doc f)) fs) \<and>
        mset (map doc fs) = mset (stories d)"
proof -
  let ?fs = "map (format_story (users d)) (sort_createdAt_desc (stories d))"
  have d: "map doc ?fs = sort_createdAt_desc (stories d)" by (rule doc_format_story)
  have "map (\<lambda>f. createdAt (doc f)) ?fs = map createdAt (map doc ?fs)" by simp
  also have "\<dots> = map createdAt (sort_createdAt_desc (stories d))" by (simp only: d)
  finally have nf: "newest_first (map (\<lambda>f. createdAt (doc f)) ?fs)"
    by (simp only: newest_first_sort)
  have ms: "mset (map doc ?fs) = mset (stories d)"
    by (simp only: d) (simp add: sort_createdAt_desc_def)
  have g: "get_stories d = StoriesJson ?fs"
    by (simp only: get_stories_def)
  from g nf ms show ?thesis by blast
qed

text \<open>
  The claim as written covers the router of routes/stories.js as well, and fails there:
  the router answers with the collection as it is stored, and with an older story stored
  before a newer one its answer is not newest first.
\<close>

theorem router_get_stories_not_newest_first:
  "\<not> newest_first (map r_createdAt (router_get_stories ex_router_collection))"
  by (simp add: router_get_stories_def ex_router_collection_def newest_first_def)

subsection \<open>The name of a new user\<close>

lemma full_name_truthy: "truthy (Some (full_name cu))"
  by (simp add: truthy_def full_name_def)

lemma synced_username_eq:
  "synced_username cu fallback
     = (if truthy (cu_username cu) then cu_username cu else Some (full_name cu))"
  by (simp add: synced_username_def js_or_def full_name_truthy)

text \<open>
  C4. The new user's name is the Clerk username when there is one, and otherwise the
  concatenation of the name parts, whatever they are: that string has a space in it, so
  it is never falsy and the placeholder \<^verbatim>\<open>user_<id>\<close> is never taken. For the identity
  \<^verbatim>\<open>abc\<close> with no username and no name parts, \<^verbatim>\<open>syncUser\<close> on an empty database
  creates a user named \<^verbatim>\<open>null null\<close>.
\<close>

theorem syncUser_nameless_identity:
  "syncUser env_nameless \<lparr>users = [], stories = []\<rparr> (Some ''abc'')
     = (\<lparr>users = [\<lparr>uid = 10, clerkId = ''abc'', username = Some ''null null'', email = None,
                     u_imageUrl = None, bio = [], u_createdAt = 5000, u_updatedAt = 5000\<rparr>],
         stories = []\<rparr>,
        Inr \<lparr>uid = 10, clerkId = ''abc'', username = Some ''null null'', email = None,
             u_imageUrl = None, bio = [], u_createdAt = 5000, u_updatedAt = 5000\<rparr>)"
  by (simp add: env_nameless_def clerk_nameless_def model_defs)

lemma new_user_never_placeholder:
  "username (new_user e cu)
     = (if truthy (cu_username cu) then cu_username cu else Some (full_name cu))"
  by (simp add: new_user_def synced_username_eq)

end
